theory Spec2Isabelle
  imports Complex_Main "HOL-Library.Multiset"
begin

section \<open>Dual-model arbitration and stabilisation engine of EGourd\<close>

text \<open>
  The development embeds the arbitration, smoothing, stability and frame-selection logic
  of the mobile application.  JavaScript numbers are read as real numbers: a decimal
  literal denotes its exact value, arithmetic is exact, and the not-a-number value is
  represented only where the code can produce it (\<open>parseFloat\<close>).  JavaScript \<open>null\<close>
  is \<open>None\<close>; strict equality \<open>===\<close> on strings and \<open>null\<close> is HOL equality.
\<close>

subsection \<open>Arbitrator: \<open>comparePredictions\<close> (geminiService.js)\<close>

text \<open>
  The three fields of a prediction object that \<open>comparePredictions\<close> reads.  The local
  prediction takes \<open>variety\<close> from \<open>getVarietyFromLabel\<close> (a display name or \<open>null\<close>),
  the remote one from \<open>formatPrediction\<close>.
\<close>

record prediction =
  variety :: "string option"
  gender :: "string option"
  rawScore :: real

text \<open>The recommendation strings \<open>'manual'\<close>, \<open>'gemini'\<close> (remote) and \<open>'tflite'\<close> (local).\<close>

datatype recommendation = Manual | Gemini | Tflite

record comparison =
  agree :: bool
  varietyMatch :: bool
  genderMatch :: bool
  confidence :: real
  recommendation :: recommendation
  confidenceGap :: real

text \<open>The legacy version (first copy of the service, lines 299--332).\<close>

definition comparePredictions_legacy :: "prediction \<Rightarrow> prediction \<Rightarrow> comparison" where
  "comparePredictions_legacy tflitePrediction geminiPrediction =
     (let vMatch = (variety tflitePrediction = variety geminiPrediction);
          gMatch = (gender tflitePrediction = gender geminiPrediction);
          bothAgree = (vMatch \<and> gMatch);
          avgConfidence = (rawScore tflitePrediction + rawScore geminiPrediction) / 2;
          maxConfidence = max (rawScore tflitePrediction) (rawScore geminiPrediction);
          rec =
            (if bothAgree then
               (if rawScore geminiPrediction \<ge> rawScore tflitePrediction then Gemini else Tflite)
             else if rawScore geminiPrediction > 0.8 \<and> rawScore tflitePrediction < 0.6 then Gemini
             else if rawScore tflitePrediction > 0.8 \<and> rawScore geminiPrediction < 0.6 then Tflite
             else Manual)
      in \<lparr> agree = bothAgree,
           varietyMatch = vMatch,
           genderMatch = gMatch,
           confidence = (if bothAgree then maxConfidence else avgConfidence),
           recommendation = rec,
           confidenceGap = \<bar>rawScore tflitePrediction - rawScore geminiPrediction\<bar> \<rparr>)"

text \<open>
  The current version (second copy, lines 721--785).  The species check and the gender
  check each have an inner \<open>if\<close>: when the outer condition holds and the inner one
  does not, no later branch of the chain is tried and the default \<open>'manual'\<close> stays.
\<close>

definition comparePredictions :: "prediction \<Rightarrow> prediction \<Rightarrow> comparison" where
  "comparePredictions tflitePrediction geminiPrediction =
     (let vMatch = (variety tflitePrediction = variety geminiPrediction);
          gMatch = (gender tflitePrediction = gender geminiPrediction);
          bothAgree = (vMatch \<and> gMatch);
          avgConfidence = (rawScore tflitePrediction + rawScore geminiPrediction) / 2;
          maxConfidence = max (rawScore tflitePrediction) (rawScore geminiPrediction);
          rec =
            (if bothAgree then
               (if rawScore geminiPrediction \<ge> rawScore tflitePrediction then Gemini else Tflite)
             else if variety tflitePrediction = Some ''Upo (Smooth)''
                     \<and> variety geminiPrediction = Some ''Ampalaya Bilog'' then
               (if rawScore tflitePrediction > 0.8 then Tflite else Manual)
             else if gender tflitePrediction = Some ''female''
                     \<and> gender geminiPrediction = Some ''male'' then
               (if rawScore geminiPrediction < 0.98 \<and> rawScore tflitePrediction > 0.65 then Tflite
                else if rawScore geminiPrediction \<ge> 0.98 then Gemini
                else Manual)
             else if rawScore tflitePrediction \<ge> 0.98 then Tflite
             else if rawScore geminiPrediction \<ge> 0.95 \<and> rawScore tflitePrediction < 0.7 then Gemini
             else if rawScore tflitePrediction \<ge> 0.90 \<and> rawScore geminiPrediction < 0.90 then Tflite
             else if rawScore geminiPrediction \<ge> 0.90 \<and> rawScore tflitePrediction < 0.80 then Gemini
             else Manual)
      in \<lparr> agree = bothAgree,
           varietyMatch = vMatch,
           genderMatch = gMatch,
           confidence = (if bothAgree then maxConfidence else avgConfidence),
           recommendation = rec,
           confidenceGap = \<bar>rawScore tflitePrediction - rawScore geminiPrediction\<bar> \<rparr>)"

text \<open>The variety pairing that the species check tests.\<close>

definition speciesPairing :: "prediction \<Rightarrow> prediction \<Rightarrow> bool" where
  "speciesPairing l r \<longleftrightarrow>
     variety l = Some ''Upo (Smooth)'' \<and> variety r = Some ''Ampalaya Bilog''"

subsection \<open>Local classifier with temporal smoothing: \<open>ModelServiceTM\<close> (modelServiceTM.js)\<close>

definition TM_LABELS :: "string list" where
  "TM_LABELS =
     [''Ampalaya Bilog Male'', ''Ampalaya Bilog Female'', ''Patola Female'',
      ''Patola Male'', ''Upo Smooth Female'', ''Upo Smooth Male'']"

definition historySize :: nat where
  "historySize = 5"

definition CONFIDENCE_THRESHOLD :: real where
  "CONFIDENCE_THRESHOLD = 0.70"

text \<open>\<open>Math.round\<close>: the nearest integer, halves rounded up.\<close>

definition Math_round :: "real \<Rightarrow> real" where
  "Math_round x = of_int \<lfloor>x + 1 / 2\<rfloor>"

text \<open>
  The service singleton's fields that prediction reads and writes.  One entry of
  \<open>predictionHistory\<close> is one normalised output tensor.
\<close>

record model_service =
  isReady :: bool
  predictionHistory :: "real list list"

record tm_prediction =
  label :: string
  probability :: real
  percentage :: real
  index :: int
  isSynthetic :: bool

text \<open>
  The returned object without \<open>processingTime\<close> and \<open>modelType\<close>, which no tracked
  decision reads.
\<close>

record tm_result =
  predictions :: "tm_prediction list"
  topPrediction :: tm_prediction
  isUncertain :: bool

datatype tm_error = NotInitialized | PredictionFailed

text \<open>\<open>xs[i] || 0\<close>: an index past the end reads \<open>undefined\<close>, which \<open>||\<close> turns into 0.\<close>

definition at_or_zero :: "real list \<Rightarrow> nat \<Rightarrow> real" where
  "at_or_zero xs i = (if i < length xs then xs ! i else 0)"

text \<open>Lines 218--221: \<open>push\<close>, then \<open>shift\<close> when the window exceeds \<open>historySize\<close>.\<close>

definition pushHistory :: "real list list \<Rightarrow> real list \<Rightarrow> real list list" where
  "pushHistory history normalizedOutput =
     (let pushed = history @ [normalizedOutput]
      in if length pushed > historySize then tl pushed else pushed)"

text \<open>Lines 223--232: the per-class mean over the window.\<close>

definition averagedProbs :: "real list list \<Rightarrow> real list" where
  "averagedProbs history =
     map (\<lambda>i. sum_list (map (\<lambda>historyItem. at_or_zero historyItem i) history)
                / real (length history))
       [0 ..< length TM_LABELS]"

text \<open>Lines 236--246: one entry per label, in label order.\<close>

definition buildPredictions :: "real list \<Rightarrow> tm_prediction list" where
  "buildPredictions averaged =
     map (\<lambda>i. let p = at_or_zero averaged i
              in \<lparr> label = TM_LABELS ! i,
                   probability = p,
                   percentage = Math_round (p * 100 * 10) / 10,
                   index = int i,
                   isSynthetic = False \<rparr>)
       [0 ..< length TM_LABELS]"

text \<open>
  \<open>predictions.sort((a, b) => b.probability - a.probability)\<close>: descending by
  probability; the sort is stable (ECMAScript 2019), so entries of equal probability
  keep their order.
\<close>

definition sortDescending :: "tm_prediction list \<Rightarrow> tm_prediction list" where
  "sortDescending ps = sort_key (\<lambda>p. - probability p) ps"

definition notFlowerPrediction :: "real \<Rightarrow> tm_prediction" where
  "notFlowerPrediction notFlowerProbability =
     \<lparr> label = ''Not Flower'',
       probability = notFlowerProbability,
       percentage = Math_round (notFlowerProbability * 100 * 10) / 10,
       index = - 1,
       isSynthetic = True \<rparr>"

text \<open>Lines 236--249: the ranked distribution before the reject logic.\<close>

definition rankedPredictions :: "real list list \<Rightarrow> tm_prediction list" where
  "rankedPredictions history = sortDescending (buildPredictions (averagedProbs history))"

text \<open>
  Lines 223--278, from the window after the push.  The ranked list has one entry per
  label, so \<open>predictions[0]\<close> exists.
\<close>

definition smoothedResult :: "real list list \<Rightarrow> tm_result" where
  "smoothedResult history =
     (let ranked = rankedPredictions history;
          top = hd ranked;
          uncertain = (probability top < CONFIDENCE_THRESHOLD);
          final =
            (if uncertain
             then sortDescending (ranked @ [notFlowerPrediction (1.0 - probability top)])
             else ranked)
      in \<lparr> predictions = final, topPrediction = hd final, isUncertain = uncertain \<rparr>)"

text \<open>
  \<open>predictWithAllProbabilities\<close>.  The argument \<open>outputs\<close> is the normalised output
  of preprocessing and inference, \<open>None\<close> when either throws; the state is returned
  with the result.
\<close>

definition predictWithAllProbabilities ::
    "model_service \<Rightarrow> real list option \<Rightarrow> (tm_error + tm_result) \<times> model_service" where
  "predictWithAllProbabilities svc outputs =
     (if \<not> isReady svc then (Inl NotInitialized, svc)
      else case outputs of
        None \<Rightarrow> (Inl PredictionFailed, svc)
      | Some normalizedOutput \<Rightarrow>
          (let history = pushHistory (predictionHistory svc) normalizedOutput
           in (Inr (smoothedResult history), svc\<lparr>predictionHistory := history\<rparr>)))"

definition quickPredict ::
    "model_service \<Rightarrow> real list option \<Rightarrow> (tm_error + tm_result) \<times> model_service" where
  "quickPredict svc outputs = predictWithAllProbabilities svc outputs"


subsection \<open>Stability tracking and capture: \<open>CameraScreenTM\<close>\<close>

text \<open>What \<open>takePictureAsync\<close> returns.\<close>

record photo =
  uri :: string
  width :: nat
  height :: nat

text \<open>An entry of \<open>recentPredictions\<close>; \<open>r_confidence\<close> is a percentage.\<close>

record recent_prediction =
  r_label :: string
  r_confidence :: real
  r_uri :: string
  r_width :: nat
  r_height :: nat

record best_frame =
  b_uri :: "string option"
  b_width :: nat
  b_height :: nat
  b_label :: "string option"
  b_confidence :: real
  b_count :: nat

record last_frame =
  f_uri :: "string option"
  f_width :: nat
  f_height :: nat

text \<open>The value both the initial \<open>useRef\<close> and the focus reset give to \<open>bestFrame\<close>.\<close>

definition emptyBestFrame :: best_frame where
  "emptyBestFrame =
     \<lparr> b_uri = None, b_width = 0, b_height = 0, b_label = None, b_confidence = 0, b_count = 0 \<rparr>"

definition emptyLastFrame :: last_frame where
  "emptyLastFrame = \<lparr> f_uri = None, f_width = 0, f_height = 0 \<rparr>"

text \<open>
  The refs and state of the screen that scanning and capture touch, with the state of
  the service singleton the scan loop calls.
\<close>

record scan_state =
  service :: model_service
  recentPredictions :: "recent_prediction list"
  bestFrame :: best_frame
  lastFrameUri :: last_frame
  isStable :: bool
  isCapturing :: bool

text \<open>The focus effect: a new session.\<close>

definition resetOnFocus :: "scan_state \<Rightarrow> scan_state" where
  "resetOnFocus st =
     st\<lparr> isCapturing := False, isStable := False, bestFrame := emptyBestFrame,
         recentPredictions := [], lastFrameUri := emptyLastFrame \<rparr>"

text \<open>\<open>xs.slice(-n)\<close>: the last \<open>n\<close> elements, all of them when there are fewer.\<close>

definition slice_last :: "nat \<Rightarrow> 'a list \<Rightarrow> 'a list" where
  "slice_last n xs = drop (length xs - n) xs"

text \<open>Lines 1369--1378: \<open>push\<close>, then \<open>shift\<close> when more than 7 entries are held.\<close>

definition pushRecent :: "recent_prediction list \<Rightarrow> recent_prediction \<Rightarrow> recent_prediction list" where
  "pushRecent recent entry =
     (let pushed = recent @ [entry]
      in if length pushed > 7 then tl pushed else pushed)"

text \<open>Lines 1363--1418: what one tick does with the result of its prediction.\<close>

definition trackPrediction :: "scan_state \<Rightarrow> photo \<Rightarrow> tm_result \<Rightarrow> scan_state" where
  "trackPrediction st ph result =
     (let currentLabel = label (topPrediction result);
          currentConfidence = percentage (topPrediction result);
          recent = pushRecent (recentPredictions st)
                     \<lparr> r_label = currentLabel, r_confidence = currentConfidence,
                       r_uri = uri ph, r_width = width ph, r_height = height ph \<rparr>;
          lastFive = slice_last 5 recent;
          stableNow = (length lastFive \<ge> 5 \<and> list_all (\<lambda>p. r_label p = currentLabel) lastFive);
          stable = (stableNow \<and> currentLabel \<noteq> ''Not Flower'');
          candidate =
            \<lparr> b_uri = Some (uri ph), b_width = width ph, b_height = height ph,
              b_label = Some currentLabel, b_confidence = currentConfidence,
              b_count = length lastFive \<rparr>;
          best =
            (if stable then
               (if Some currentLabel = b_label (bestFrame st) then
                  (if currentConfidence > b_confidence (bestFrame st) then candidate
                   else bestFrame st)
                else
                  (if currentConfidence > b_confidence (bestFrame st) then candidate
                   else bestFrame st))
             else bestFrame st)
      in st\<lparr> recentPredictions := recent, isStable := stable, bestFrame := best \<rparr>)"

text \<open>
  One firing of the scan interval.  \<open>Skipped\<close>: the guard returned, the camera threw, or
  scanning was stopped during the capture.  \<open>Captured ph outputs\<close>: a frame was taken and
  prediction ran on it, \<open>outputs\<close> as for \<open>predictWithAllProbabilities\<close>.
\<close>

datatype tick = Skipped | Captured photo "real list option"

definition scanTick :: "scan_state \<Rightarrow> tick \<Rightarrow> scan_state" where
  "scanTick st t =
     (case t of
        Skipped \<Rightarrow> st
      | Captured ph outputs \<Rightarrow>
          (let st1 = st\<lparr> lastFrameUri :=
                          \<lparr> f_uri = Some (uri ph), f_width = width ph, f_height = height ph \<rparr> \<rparr>
           in case quickPredict (service st1) outputs of
                (Inl err, svc) \<Rightarrow> st1\<lparr> service := svc \<rparr>
              | (Inr result, svc) \<Rightarrow> trackPrediction (st1\<lparr> service := svc \<rparr>) ph result))"

text \<open>The template strings of \<open>selectionReason\<close>, with their interpolated values.\<close>

datatype selection_reason =
    BestStable "string option" real
  | BestRecent string real
  | LastFrame

text \<open>
  What \<open>handleCapture\<close> ends in: nothing (a capture is already running), navigation with
  a cached frame, navigation with a freshly taken photo, or the capture-failed alert.
\<close>

datatype capture_outcome =
    Ignored
  | NavigateCached string nat nat selection_reason
  | NavigateFresh string nat nat
  | CaptureFailed

text \<open>JavaScript truthiness of a string or \<open>null\<close>.\<close>

definition truthy :: "string option \<Rightarrow> bool" where
  "truthy s = (case s of None \<Rightarrow> False | Some v \<Rightarrow> v \<noteq> [])"

text \<open>Lines 1524--1526: \<open>filter\<close>, stable descending \<open>sort\<close>, element 0 or \<open>undefined\<close>.\<close>

definition bestRecentOf :: "recent_prediction list \<Rightarrow> recent_prediction option" where
  "bestRecentOf recent =
     (case sort_key (\<lambda>p. - r_confidence p) (filter (\<lambda>p. r_label p \<noteq> ''Not Flower'') recent) of
        [] \<Rightarrow> None
      | p # _ \<Rightarrow> Some p)"

text \<open>
  Lines 1510--1541: the chosen \<open>imageUri\<close> with its dimensions and reason; \<open>None\<close>
  where \<open>imageUri\<close> stays \<open>null\<close>.
\<close>

definition selectFrame :: "scan_state \<Rightarrow> (string \<times> nat \<times> nat \<times> selection_reason) option" where
  "selectFrame st =
     (if truthy (b_uri (bestFrame st)) \<and> b_confidence (bestFrame st) > 50 then
        (case b_uri (bestFrame st) of
           Some u \<Rightarrow> Some (u, b_width (bestFrame st), b_height (bestFrame st),
                        BestStable (b_label (bestFrame st)) (b_confidence (bestFrame st)))
         | None \<Rightarrow> None)
      else
        (case bestRecentOf (recentPredictions st) of
           Some bestRecent \<Rightarrow>
             (if r_confidence bestRecent > 60 then
                Some (r_uri bestRecent, r_width bestRecent, r_height bestRecent,
                      BestRecent (r_label bestRecent) (r_confidence bestRecent))
              else if truthy (f_uri (lastFrameUri st)) then
                (case f_uri (lastFrameUri st) of
                   Some u \<Rightarrow> Some (u, f_width (lastFrameUri st), f_height (lastFrameUri st), LastFrame)
                 | None \<Rightarrow> None)
              else None)
         | None \<Rightarrow>
             (if truthy (f_uri (lastFrameUri st)) then
                (case f_uri (lastFrameUri st) of
                   Some u \<Rightarrow> Some (u, f_width (lastFrameUri st), f_height (lastFrameUri st), LastFrame)
                 | None \<Rightarrow> None)
              else None)))"

text \<open>
  \<open>handleCapture\<close>.  \<open>fresh\<close> is what \<open>takePictureAsync\<close> would deliver for a new photo,
  \<open>None\<close> when it throws.  A chosen \<open>imageUri\<close> that is the empty string is falsy and
  leads to the fresh capture like \<open>null\<close>.
\<close>

definition handleCapture :: "scan_state \<Rightarrow> photo option \<Rightarrow> capture_outcome \<times> scan_state" where
  "handleCapture st fresh =
     (if isCapturing st then (Ignored, st)
      else
        (let st1 = st\<lparr> isCapturing := True \<rparr>
         in case selectFrame st1 of
              Some (imageUri, imageWidth, imageHeight, selectionReason) \<Rightarrow>
                (if imageUri \<noteq> [] then
                   (NavigateCached imageUri imageWidth imageHeight selectionReason, st1)
                 else
                   (case fresh of
                      Some ph \<Rightarrow> (NavigateFresh (uri ph) (width ph) (height ph), st1)
                    | None \<Rightarrow> (CaptureFailed, st1\<lparr> isCapturing := False \<rparr>)))
            | None \<Rightarrow>
                (case fresh of
                   Some ph \<Rightarrow> (NavigateFresh (uri ph) (width ph) (height ph), st1)
                 | None \<Rightarrow> (CaptureFailed, st1\<lparr> isCapturing := False \<rparr>))))"

subsection \<open>Remote classifier: parsing in \<open>analyzeFlower\<close> (geminiService.js)\<close>

text \<open>
  A response text is a \<open>string\<close>; code units beyond eight bits are outside the model.
  A number that may be not-a-number:
\<close>

datatype number = NaN | Num real

definition num_map :: "(real \<Rightarrow> real) \<Rightarrow> number \<Rightarrow> number" where
  "num_map f n = (case n of NaN \<Rightarrow> NaN | Num x \<Rightarrow> Num (f x))"

text \<open>\<open>n < c\<close>: false when \<open>n\<close> is not-a-number.\<close>

definition num_less :: "number \<Rightarrow> real \<Rightarrow> bool" where
  "num_less n c = (case n of NaN \<Rightarrow> False | Num x \<Rightarrow> x < c)"

definition dquote :: char where
  "dquote = CHR 0x22"

text \<open>The class \<open>\s\<close> within eight bits, and \<open>\d\<close>.\<close>

definition is_space :: "char \<Rightarrow> bool" where
  "is_space c \<longleftrightarrow> c \<in> set [CHR 0x09, CHR 0x0A, CHR 0x0B, CHR 0x0C, CHR 0x0D, CHR 0x20, CHR 0xA0]"

definition is_digit :: "char \<Rightarrow> bool" where
  "is_digit c \<longleftrightarrow> 48 \<le> (of_char c :: nat) \<and> (of_char c :: nat) \<le> 57"

text \<open>
  \<open>text.match(/\{[\s\S]*\}/)\<close>: from the first opening brace to the last closing brace
  after it; \<open>None\<close> when there is no such pair.
\<close>

definition jsonMatch :: "string \<Rightarrow> string option" where
  "jsonMatch text =
     (let fromBrace = dropWhile (\<lambda>c. c \<noteq> CHR ''{'') text
      in if CHR ''}'' \<in> set fromBrace
         then Some (rev (dropWhile (\<lambda>c. c \<noteq> CHR ''}'') (rev fromBrace)))
         else None)"

fun stripPrefix :: "string \<Rightarrow> string \<Rightarrow> string option" where
  "stripPrefix [] s = Some s"
| "stripPrefix (p # ps) [] = None"
| "stripPrefix (p # ps) (c # cs) = (if p = c then stripPrefix ps cs else None)"

text \<open>The leftmost position at which a pattern matches.\<close>

fun firstMatch :: "(string \<Rightarrow> 'a option) \<Rightarrow> string \<Rightarrow> 'a option" where
  "firstMatch m [] = m []"
| "firstMatch m (c # cs) = (case m (c # cs) of Some v \<Rightarrow> Some v | None \<Rightarrow> firstMatch m cs)"

text \<open>
  \<open>"key"\s*:\s*\<close> at the start of the text; the rest of the text after it.  No
  whitespace character is a colon, so the greedy \<open>\s*\<close> never has to give back.
\<close>

definition keyColonAt :: "string \<Rightarrow> string \<Rightarrow> string option" where
  "keyColonAt key s =
     (case stripPrefix (dquote # key @ [dquote]) s of
        None \<Rightarrow> None
      | Some afterKey \<Rightarrow>
          (case dropWhile is_space afterKey of
             [] \<Rightarrow> None
           | c # afterColon \<Rightarrow>
               (if c = CHR '':'' then Some (dropWhile is_space afterColon) else None)))"

text \<open>
  \<open>/"key"\s*:\s*"([^"]+)"/\<close> when \<open>closing\<close>, \<open>/"key"\s*:\s*"([^"]+)/\<close> otherwise,
  at the start of the text: capture group 1.
\<close>

definition quotedFieldAt :: "bool \<Rightarrow> string \<Rightarrow> string \<Rightarrow> string option" where
  "quotedFieldAt closing key s =
     (case keyColonAt key s of
        None \<Rightarrow> None
      | Some v \<Rightarrow>
          (case v of
             [] \<Rightarrow> None
           | q # content \<Rightarrow>
               (let captured = takeWhile (\<lambda>c. c \<noteq> dquote) content;
                    remaining = dropWhile (\<lambda>c. c \<noteq> dquote) content
                in if q \<noteq> dquote \<or> captured = [] then None
                   else if closing \<and> remaining = [] then None
                   else Some captured)))"

text \<open>\<open>/"key"\s*:\s*([\d.]+)/\<close> at the start of the text: capture group 1.\<close>

definition numericFieldAt :: "string \<Rightarrow> string \<Rightarrow> string option" where
  "numericFieldAt key s =
     (case keyColonAt key s of
        None \<Rightarrow> None
      | Some v \<Rightarrow>
          (let captured = takeWhile (\<lambda>c. is_digit c \<or> c = CHR ''.'') v
           in if captured = [] then None else Some captured))"

definition varietyMatch1 :: "string \<Rightarrow> string option" where
  "varietyMatch1 text = firstMatch (quotedFieldAt True ''variety'') text"

definition genderMatch1 :: "string \<Rightarrow> string option" where
  "genderMatch1 text = firstMatch (quotedFieldAt True ''gender'') text"

definition confidenceMatch1 :: "string \<Rightarrow> string option" where
  "confidenceMatch1 text = firstMatch (numericFieldAt ''confidence'') text"

definition reasoningMatch1 :: "string \<Rightarrow> string option" where
  "reasoningMatch1 text = firstMatch (quotedFieldAt False ''reasoning'') text"

definition digitsValue :: "string \<Rightarrow> real" where
  "digitsValue ds = foldl (\<lambda>acc c. 10 * acc + real ((of_char c :: nat) - 48)) 0 ds"

text \<open>
  \<open>parseFloat\<close> on what the group \<open>[\d.]+\<close> can hold, digits and dots: the longest
  prefix that is a decimal literal, not-a-number when there is none.
\<close>

definition parseFloat :: "string \<Rightarrow> number" where
  "parseFloat s =
     (let intPart = takeWhile is_digit s;
          fracPart = (case dropWhile is_digit s of
                        [] \<Rightarrow> []
                      | c # afterDot \<Rightarrow> if c = CHR ''.'' then takeWhile is_digit afterDot else [])
      in if intPart = [] \<and> fracPart = [] then NaN
         else Num (digitsValue intPart + digitsValue fracPart / 10 ^ length fracPart))"

text \<open>
  The object \<open>geminiResult\<close>: the fields that validation and formatting read, each
  absent (\<open>None\<close>) or of the type the prompt prescribes.
\<close>

record gemini_result =
  g_variety :: "string option"
  g_gender :: "string option"
  g_confidence :: "number option"
  g_reasoning :: "string option"
  g_keyFeatures :: "string list option"

text \<open>
  The formatted prediction without its message, timing and model metadata, the simulated
  probabilities and the quality sub-objects.
\<close>

record gemini_prediction =
  predictedClass :: string
  p_variety :: "string option"
  p_gender :: "string option"
  isFlower :: bool
  p_confidence :: "number option"
  p_rawScore :: "number option"
  isLowConfidence :: bool
  p_isUncertain :: bool
  shouldReject :: bool
  isNotFlower :: bool
  p_reasoning :: "string option"
  p_keyFeatures :: "string list"

definition formatPrediction :: "gemini_result \<Rightarrow> gemini_prediction" where
  "formatPrediction geminiResult =
     (let notFlower = (g_variety geminiResult = Some ''not_flower'');
          varietyDisplay =
            (if g_variety geminiResult = Some ''ampalaya_bilog'' then Some ''Ampalaya Bilog''
             else if g_variety geminiResult = Some ''patola'' then Some ''Patola''
             else if g_variety geminiResult = Some ''upo_smooth'' then Some ''Upo (Smooth)''
             else None);
          predicted =
            (if notFlower then ''not_flower''
             else if truthy varietyDisplay \<and> truthy (g_gender geminiResult) then
               (case (g_variety geminiResult, g_gender geminiResult) of
                  (Some v, Some g) \<Rightarrow> v @ ''_'' @ g
                | _ \<Rightarrow> ''unknown'')
             else ''unknown'');
          confidencePercent =
            map_option (num_map (\<lambda>c. Math_round (c * 100 * 10) / 10)) (g_confidence geminiResult);
          lowConfidence =
            (case g_confidence geminiResult of None \<Rightarrow> False | Some n \<Rightarrow> num_less n 0.65);
          uncertain =
            (case g_confidence geminiResult of None \<Rightarrow> False | Some n \<Rightarrow> num_less n 0.5)
      in \<lparr> predictedClass = predicted,
           p_variety = varietyDisplay,
           p_gender = (if \<not> notFlower then g_gender geminiResult else None),
           isFlower = (\<not> notFlower),
           p_confidence = confidencePercent,
           p_rawScore = g_confidence geminiResult,
           isLowConfidence = lowConfidence,
           p_isUncertain = uncertain,
           shouldReject = (notFlower \<or> uncertain),
           isNotFlower = notFlower,
           p_reasoning = g_reasoning geminiResult,
           p_keyFeatures = (case g_keyFeatures geminiResult of None \<Rightarrow> [] | Some ks \<Rightarrow> ks) \<rparr>)"

text \<open>The object built from the three captured fields.\<close>

definition extracted :: "string \<Rightarrow> string \<Rightarrow> string \<Rightarrow> string \<Rightarrow> gemini_result" where
  "extracted v g c reasoning =
     \<lparr> g_variety = Some v, g_gender = Some g, g_confidence = Some (parseFloat c),
       g_reasoning = Some reasoning, g_keyFeatures = Some [] \<rparr>"

text \<open>
  Lines 517--562.  \<open>JSON_parse\<close> stands for the built-in applied to the matched object
  text, \<open>None\<close> when it throws.  The \<open>throw\<close> of the inner \<open>else\<close> is inside the
  \<open>try\<close>, so the \<open>catch\<close> block runs after it as after a failed \<open>JSON.parse\<close>.
  The result is the message of the error thrown, or \<open>geminiResult\<close>.
\<close>

definition parseResponse :: "(string \<Rightarrow> gemini_result option) \<Rightarrow> string \<Rightarrow> string + gemini_result" where
  "parseResponse JSON_parse text =
     (let tried =
            (case jsonMatch text of
               Some objectText \<Rightarrow>
                 (case JSON_parse objectText of
                    Some parsed \<Rightarrow> Inr parsed
                  | None \<Rightarrow> Inl ''JSON.parse'')
             | None \<Rightarrow>
                 (case (varietyMatch1 text, genderMatch1 text, confidenceMatch1 text) of
                    (Some v, Some g, Some c) \<Rightarrow>
                      Inr (extracted v g c
                             (case reasoningMatch1 text of
                                Some r \<Rightarrow> r
                              | None \<Rightarrow> ''Analysis completed''))
                  | _ \<Rightarrow> Inl ''Could not parse Gemini response''))
      in case tried of
           Inr geminiResult \<Rightarrow> Inr geminiResult
         | Inl parseError \<Rightarrow>
             (case (varietyMatch1 text, genderMatch1 text, confidenceMatch1 text) of
                (Some v, Some g, Some c) \<Rightarrow>
                  Inr (extracted v g c ''Analysis completed (partial response)'')
              | _ \<Rightarrow> Inl ''Invalid response format from Gemini''))"

text \<open>The error \<open>Gemini analysis failed: <message>\<close>, by its inner message.\<close>

datatype gemini_error = AnalysisFailed string

text \<open>
  \<open>analyzeFlower\<close> from the availability check on.  \<open>available\<close> is \<open>isAvailable()\<close>
  after initialisation was tried; \<open>response\<close> is the text of the model's response, or
  the message of the error that reading the image or calling the API threw.
\<close>

definition analyzeFlower ::
    "(string \<Rightarrow> gemini_result option) \<Rightarrow> bool \<Rightarrow> string + string \<Rightarrow> gemini_error + gemini_prediction" where
  "analyzeFlower JSON_parse available response =
     (if \<not> available then Inl (AnalysisFailed ''Gemini service not available'')
      else case response of
        Inl message \<Rightarrow> Inl (AnalysisFailed message)
      | Inr text \<Rightarrow>
          (case parseResponse JSON_parse text of
             Inl message \<Rightarrow> Inl (AnalysisFailed message)
           | Inr geminiResult \<Rightarrow>
               (if \<not> truthy (g_variety geminiResult) \<or> \<not> truthy (g_gender geminiResult)
                   \<or> g_confidence geminiResult = None
                then Inl (AnalysisFailed ''Incomplete response from Gemini'')
                else Inr (formatPrediction geminiResult))))"

text \<open>Strict parsing fails: no object text is found, or \<open>JSON.parse\<close> throws on it.\<close>

definition strictParseFails :: "(string \<Rightarrow> gemini_result option) \<Rightarrow> string \<Rightarrow> bool" where
  "strictParseFails JSON_parse text =
     (case jsonMatch text of None \<Rightarrow> True | Some objectText \<Rightarrow> JSON_parse objectText = None)"

section \<open>Properties\<close>

subsection \<open>Arbitration\<close>

text \<open>
  Claim C1, as the code has it.  For a pair with local gender \<open>female\<close> and remote gender
  \<open>male\<close> that the species check does not take first (the varieties are not local
  \<open>Upo (Smooth)\<close> against remote \<open>Ampalaya Bilog\<close>): the remote source is recommended
  when the remote raw score is at least 0.98; otherwise the local source is recommended
  when the local raw score is above 0.65, and the recommendation is \<open>manual\<close> when it
  is not.
\<close>

theorem female_protection:
  assumes "gender l = Some ''female''" and "gender r = Some ''male''"
    and "\<not> speciesPairing l r"
  shows "recommendation (comparePredictions l r) =
           (if rawScore r \<ge> 0.98 then Gemini
            else if rawScore l > 0.65 then Tflite
            else Manual)"
  using assms by (auto simp: comparePredictions_def speciesPairing_def Let_def)

text \<open>The two examples of the specification: remote at 0.99, then at 0.90.\<close>

theorem female_protection_witness:
  "recommendation (comparePredictions
      \<lparr>variety = Some ''A'', gender = Some ''female'', rawScore = 0.95\<rparr>
      \<lparr>variety = Some ''A'', gender = Some ''male'', rawScore = 0.99\<rparr>) = Gemini
   \<and> recommendation (comparePredictions
      \<lparr>variety = Some ''A'', gender = Some ''female'', rawScore = 0.95\<rparr>
      \<lparr>variety = Some ''A'', gender = Some ''male'', rawScore = 0.90\<rparr>) = Tflite"
  using
    female_protection
      [of "\<lparr>variety = Some ''A'', gender = Some ''female'', rawScore = 0.95\<rparr>"
          "\<lparr>variety = Some ''A'', gender = Some ''male'', rawScore = 0.99\<rparr>"]
    female_protection
      [of "\<lparr>variety = Some ''A'', gender = Some ''female'', rawScore = 0.95\<rparr>"
          "\<lparr>variety = Some ''A'', gender = Some ''male'', rawScore = 0.90\<rparr>"]
  by (simp add: speciesPairing_def)

text \<open>
  Claim C1 as stated fails: a local \<open>female\<close> at 0.5 against a remote \<open>male\<close> at 0.9
  (below 0.98) is not given to the local source but left to the user.
\<close>

theorem female_protection_counterexample:
  "recommendation (comparePredictions
      \<lparr>variety = Some ''A'', gender = Some ''female'', rawScore = 0.5\<rparr>
      \<lparr>variety = Some ''A'', gender = Some ''male'', rawScore = 0.9\<rparr>) = Manual"
  by (simp add: comparePredictions_def Let_def)

text \<open>
  Claim C2, as the code has it.  On a disagreeing pair the rules are tried in order and
  the first whose condition holds decides.  The species check is first and its condition
  is the variety pairing alone: with the pairing, the local source is recommended exactly
  when the local raw score is above 0.8 (strictly), and the recommendation is \<open>manual\<close>
  otherwise, no later rule being tried.  Without the pairing the later rules decide in
  their order: the gender check, local at least 0.98, remote at least 0.95 with local
  below 0.7, local at least 0.9 with remote below 0.9, remote at least 0.9 with local
  below 0.8, else \<open>manual\<close>.
\<close>

theorem rule_order:
  assumes "\<not> agree (comparePredictions l r)"
  shows "(speciesPairing l r \<and> rawScore l > 0.8 \<longrightarrow>
            recommendation (comparePredictions l r) = Tflite)
       \<and> (speciesPairing l r \<and> \<not> rawScore l > 0.8 \<longrightarrow>
            recommendation (comparePredictions l r) = Manual)
       \<and> (\<not> speciesPairing l r \<longrightarrow>
            recommendation (comparePredictions l r) =
              (if gender l = Some ''female'' \<and> gender r = Some ''male'' then
                 (if rawScore r \<ge> 0.98 then Gemini
                  else if rawScore l > 0.65 then Tflite
                  else Manual)
               else if rawScore l \<ge> 0.98 then Tflite
               else if rawScore r \<ge> 0.95 \<and> rawScore l < 0.7 then Gemini
               else if rawScore l \<ge> 0.9 \<and> rawScore r < 0.9 then Tflite
               else if rawScore r \<ge> 0.9 \<and> rawScore l < 0.8 then Gemini
               else Manual))"
  using assms by (auto simp: comparePredictions_def speciesPairing_def Let_def)

theorem rule_order_witness:
  "recommendation (comparePredictions
      \<lparr>variety = Some ''Upo (Smooth)'', gender = Some ''male'', rawScore = 0.85\<rparr>
      \<lparr>variety = Some ''Ampalaya Bilog'', gender = Some ''male'', rawScore = 0.99\<rparr>) = Tflite
   \<and> recommendation (comparePredictions
      \<lparr>variety = Some ''Patola'', gender = Some ''male'', rawScore = 0.6\<rparr>
      \<lparr>variety = Some ''Ampalaya Bilog'', gender = Some ''male'', rawScore = 0.96\<rparr>) = Gemini"
  using
    rule_order
      [of "\<lparr>variety = Some ''Upo (Smooth)'', gender = Some ''male'', rawScore = 0.85\<rparr>"
          "\<lparr>variety = Some ''Ampalaya Bilog'', gender = Some ''male'', rawScore = 0.99\<rparr>"]
    rule_order
      [of "\<lparr>variety = Some ''Patola'', gender = Some ''male'', rawScore = 0.6\<rparr>"
          "\<lparr>variety = Some ''Ampalaya Bilog'', gender = Some ''male'', rawScore = 0.96\<rparr>"]
  by (simp add: speciesPairing_def comparePredictions_def Let_def)

text \<open>
  Claim C2 as stated fails twice.  With the pairing and a local raw score of exactly
  0.80 the local source is not recommended.  With the pairing and a local raw score of
  0.5 against a remote 0.96 the later rules are not consulted (the rule for a remote score
  of at least 0.95 against a local one below 0.7 would recommend the remote source): the
  recommendation is \<open>manual\<close>.
\<close>

theorem rule_order_counterexample:
  "recommendation (comparePredictions
      \<lparr>variety = Some ''Upo (Smooth)'', gender = Some ''male'', rawScore = 0.8\<rparr>
      \<lparr>variety = Some ''Ampalaya Bilog'', gender = Some ''male'', rawScore = 0.6\<rparr>) = Manual
   \<and> recommendation (comparePredictions
      \<lparr>variety = Some ''Upo (Smooth)'', gender = Some ''male'', rawScore = 0.5\<rparr>
      \<lparr>variety = Some ''Ampalaya Bilog'', gender = Some ''male'', rawScore = 0.96\<rparr>) = Manual"
  by (simp add: comparePredictions_def Let_def)

text \<open>
  Claim C3.  When the varieties are equal and the genders are equal, \<open>agree\<close> is true and
  the source with the higher raw score is recommended, the remote one on a tie.
\<close>

theorem agreement_rule:
  assumes "variety l = variety r" and "gender l = gender r"
  shows "agree (comparePredictions l r)
       \<and> (rawScore l > rawScore r \<longrightarrow> recommendation (comparePredictions l r) = Tflite)
       \<and> (rawScore r > rawScore l \<longrightarrow> recommendation (comparePredictions l r) = Gemini)
       \<and> (rawScore r = rawScore l \<longrightarrow> recommendation (comparePredictions l r) = Gemini)"
  using assms by (simp add: comparePredictions_def Let_def)

text \<open>The example of the claim: Patola, male, local 0.80 against remote 0.92.\<close>

theorem agreement_rule_witness:
  "agree (comparePredictions
      \<lparr>variety = Some ''Patola'', gender = Some ''male'', rawScore = 0.80\<rparr>
      \<lparr>variety = Some ''Patola'', gender = Some ''male'', rawScore = 0.92\<rparr>)
   \<and> recommendation (comparePredictions
      \<lparr>variety = Some ''Patola'', gender = Some ''male'', rawScore = 0.80\<rparr>
      \<lparr>variety = Some ''Patola'', gender = Some ''male'', rawScore = 0.92\<rparr>) = Gemini"
  using
    agreement_rule
      [of "\<lparr>variety = Some ''Patola'', gender = Some ''male'', rawScore = 0.80\<rparr>"
          "\<lparr>variety = Some ''Patola'', gender = Some ''male'', rawScore = 0.92\<rparr>"]
  by simp

text \<open>
  Claim C10.  On a pair with equal varieties and equal genders the legacy version and the
  current version return the same comparison, field by field.
\<close>

theorem versions_equal_on_agreement:
  assumes "variety l = variety r" and "gender l = gender r"
  shows "comparePredictions_legacy l r = comparePredictions l r"
  using assms by (simp add: comparePredictions_def comparePredictions_legacy_def Let_def)

theorem versions_equal_on_agreement_witness:
  "comparePredictions_legacy
      \<lparr>variety = Some ''Patola'', gender = Some ''male'', rawScore = 0.80\<rparr>
      \<lparr>variety = Some ''Patola'', gender = Some ''male'', rawScore = 0.92\<rparr>
   = comparePredictions
      \<lparr>variety = Some ''Patola'', gender = Some ''male'', rawScore = 0.80\<rparr>
      \<lparr>variety = Some ''Patola'', gender = Some ''male'', rawScore = 0.92\<rparr>"
  using
    versions_equal_on_agreement
      [of "\<lparr>variety = Some ''Patola'', gender = Some ''male'', rawScore = 0.80\<rparr>"
          "\<lparr>variety = Some ''Patola'', gender = Some ''male'', rawScore = 0.92\<rparr>"]
  by simp

subsection \<open>Smoothing and reject synthesis\<close>

text \<open>
  After a stable sort by a key, appending one element to a list already sorted and
  sorting again leaves the old head in front unless the new element has a strictly
  smaller key.
\<close>

lemma hd_sort_key_snoc:
  fixes f :: "'a \<Rightarrow> 'b::linorder"
  assumes "sorted (map f (y # ys))"
  shows "hd (sort_key f ((y # ys) @ [x])) = (if f y \<le> f x then y else x)"
proof -
  define zs where "zs = sort_key f (ys @ [x])"
  have sk: "sort_key f ((y # ys) @ [x]) = insort_key f y zs"
    by (simp add: zs_def)
  have set_zs: "set zs = insert x (set ys)" by (simp add: zs_def)
  have sorted_zs: "sorted (map f zs)" by (simp add: zs_def)
  have "zs \<noteq> []" using set_zs by auto
  then obtain z zs' where zs: "zs = z # zs'" by (cases zs) auto
  have ge_y: "\<forall>w \<in> set ys. f y \<le> f w" using assms by auto
  have full: "sort_key f ((y # ys) @ [x]) = insort_key f y (z # zs')"
    using sk zs by simp
  show ?thesis
  proof (cases "f y \<le> f x")
    case True
    have "z \<in> insert x (set ys)" using set_zs zs by auto
    then have "f y \<le> f z" using True ge_y by auto
    then show ?thesis unfolding full using True by simp
  next
    case False
    have "x \<in> set zs" using set_zs by simp
    then have "f z \<le> f x" using sorted_zs zs by auto
    then have nle: "\<not> f y \<le> f z" using False by auto
    have "z \<in> insert x (set ys)" using set_zs zs by auto
    then have "z = x" using nle ge_y by auto
    then show ?thesis unfolding full using False nle by simp
  qed
qed

lemma length_buildPredictions: "length (buildPredictions a) = 6"
  by (simp add: buildPredictions_def TM_LABELS_def)

lemma length_ranked: "length (rankedPredictions h) = 6"
  by (simp add: rankedPredictions_def sortDescending_def length_buildPredictions)

lemma sorted_ranked: "sorted (map (\<lambda>p. - probability p) (rankedPredictions h))"
  by (simp add: rankedPredictions_def sortDescending_def)

lemma label_buildPredictions: "q \<in> set (buildPredictions a) \<Longrightarrow> label q \<in> set TM_LABELS"
  by (auto simp: buildPredictions_def Let_def)

lemma label_ranked: "q \<in> set (rankedPredictions h) \<Longrightarrow> label q \<noteq> ''Not Flower''"
proof -
  assume "q \<in> set (rankedPredictions h)"
  then have "label q \<in> set TM_LABELS"
    by (simp add: rankedPredictions_def sortDescending_def label_buildPredictions)
  then show ?thesis by (auto simp: TM_LABELS_def)
qed

lemma percentage_ranked:
  "q \<in> set (rankedPredictions h) \<Longrightarrow> percentage q = Math_round (probability q * 100 * 10) / 10"
  by (auto simp: rankedPredictions_def sortDescending_def buildPredictions_def Let_def)

lemma ranked_cons: "\<exists>y ys. rankedPredictions h = y # ys"
  using length_ranked [of h] by (cases "rankedPredictions h") auto

lemma top_is_max:
  "q \<in> set (rankedPredictions h) \<Longrightarrow> probability q \<le> probability (hd (rankedPredictions h))"
proof -
  assume q: "q \<in> set (rankedPredictions h)"
  obtain y ys where r: "rankedPredictions h = y # ys" using ranked_cons by blast
  have "sorted (map (\<lambda>p. - probability p) (y # ys))" using sorted_ranked [of h] r by simp
  then have "\<forall>w \<in> set ys. - probability y \<le> - probability w" by simp
  then show ?thesis using q r by auto
qed

lemma top_after_synthesis:
  "hd (sortDescending (rankedPredictions h @ [notFlowerPrediction c])) =
     (if c \<le> probability (hd (rankedPredictions h)) then hd (rankedPredictions h)
      else notFlowerPrediction c)"
proof -
  obtain y ys where r: "rankedPredictions h = y # ys" using ranked_cons by blast
  have s: "sorted (map (\<lambda>p. - probability p) (y # ys))" using sorted_ranked [of h] r by simp
  show ?thesis
    unfolding sortDescending_def r
    using hd_sort_key_snoc [OF s, of "notFlowerPrediction c"]
    by (simp add: notFlowerPrediction_def)
qed

text \<open>
  Claim C7, as the code has it.  Let \<open>top1\<close> be the first entry of the ranked, averaged
  distribution.  When its probability is below 0.70 a synthetic \<open>Not Flower\<close> entry with
  probability one minus that of \<open>top1\<close> is added and the list is sorted again, descending;
  otherwise the list is returned as ranked.  The synthetic entry becomes the top prediction
  exactly when its probability exceeds every original probability, that of \<open>top1\<close>
  included, which is exactly when the probability of \<open>top1\<close> is below 0.5.  So for a
  top-1 probability of 0.55 the synthetic entry, of probability 0.45, is ranked after
  \<open>top1\<close>, which stays the top prediction whatever the other probabilities are.
\<close>

theorem reject_synthesis:
  assumes "isReady svc"
    and "ranked = rankedPredictions (pushHistory (predictionHistory svc) raw)"
    and "top1 = hd ranked"
  shows "\<exists>result. fst (predictWithAllProbabilities svc (Some raw)) = Inr result
      \<and> isUncertain result = (probability top1 < 0.70)
      \<and> topPrediction result = hd (predictions result)
      \<and> sorted_wrt (\<lambda>a b. probability a \<ge> probability b) (predictions result)
      \<and> (probability top1 < 0.70 \<longrightarrow>
           mset (predictions result) = mset ranked + {# notFlowerPrediction (1 - probability top1) #})
      \<and> (\<not> probability top1 < 0.70 \<longrightarrow> predictions result = ranked)
      \<and> (label (topPrediction result) = ''Not Flower'' \<longleftrightarrow>
           probability top1 < 0.70 \<and> (\<forall>q \<in> set ranked. probability q < 1 - probability top1))
      \<and> (label (topPrediction result) = ''Not Flower'' \<longleftrightarrow> probability top1 < 0.5)
      \<and> (label (topPrediction result) = ''Not Flower'' \<longrightarrow>
           topPrediction result = notFlowerPrediction (1 - probability top1))
      \<and> (label (topPrediction result) \<noteq> ''Not Flower'' \<longrightarrow> topPrediction result = top1)"
proof -
  define h where "h = pushHistory (predictionHistory svc) raw"
  define result where "result = smoothedResult h"
  have ranked: "ranked = rankedPredictions h" using assms(2) h_def by simp
  have res: "fst (predictWithAllProbabilities svc (Some raw)) = Inr result"
    using assms(1) by (simp add: predictWithAllProbabilities_def Let_def result_def h_def)
  have top_in: "top1 \<in> set ranked"
    using ranked_cons [of h] assms(3) ranked by auto
  have top_label: "label top1 \<noteq> ''Not Flower''"
    using label_ranked top_in ranked by blast
  have nf_label: "label (notFlowerPrediction c) = ''Not Flower''" for c
    by (simp add: notFlowerPrediction_def)
  have sorted_r: "sorted_wrt (\<lambda>a b. probability a \<ge> probability b) ranked"
    using sorted_ranked [of h] by (simp add: ranked sorted_map)
  have max_r: "\<forall>q \<in> set ranked. probability q \<le> probability top1"
    using top_is_max [of _ h] ranked assms(3) by simp
  have all_iff: "(\<forall>q \<in> set ranked. probability q < 1 - probability top1)
      \<longleftrightarrow> probability top1 < 0.5"
    using max_r top_in by force
  have tp: "topPrediction result = hd (predictions result)"
    by (simp add: result_def smoothedResult_def Let_def)
  have unc: "isUncertain result = (probability top1 < 0.70)"
    using assms(3) ranked
    by (simp add: result_def smoothedResult_def Let_def CONFIDENCE_THRESHOLD_def)
  have preds: "predictions result =
      (if probability top1 < 0.70
       then sortDescending (ranked @ [notFlowerPrediction (1 - probability top1)])
       else ranked)"
    using assms(3) ranked
    by (simp add: result_def smoothedResult_def Let_def CONFIDENCE_THRESHOLD_def)
  have srt: "sorted_wrt (\<lambda>a b. probability a \<ge> probability b) (predictions result)"
  proof (cases "probability top1 < 0.70")
    case True
    have "sorted (map (\<lambda>p. - probability p) (predictions result))"
      using True by (simp add: preds sortDescending_def)
    then show ?thesis by (simp add: sorted_map)
  next
    case False
    then show ?thesis using sorted_r preds by simp
  qed
  have ms: "probability top1 < 0.70 \<longrightarrow>
      mset (predictions result) = mset ranked + {# notFlowerPrediction (1 - probability top1) #}"
    by (simp add: preds sortDescending_def)
  have same: "\<not> probability top1 < 0.70 \<longrightarrow> predictions result = ranked"
    by (simp add: preds)
  have tp2: "topPrediction result =
      (if probability top1 < 0.5 then notFlowerPrediction (1 - probability top1) else top1)"
  proof (cases "probability top1 < 0.70")
    case True
    have "topPrediction result =
        (if 1 - probability top1 \<le> probability top1 then top1
         else notFlowerPrediction (1 - probability top1))"
      using top_after_synthesis [where h = h and c = "1 - probability top1"]
        assms(3) ranked preds tp True by simp
    then show ?thesis by auto
  next
    case False
    then show ?thesis using tp preds assms(3) by simp
  qed
  have lab: "label (topPrediction result) = ''Not Flower'' \<longleftrightarrow> probability top1 < 0.5"
    using tp2 top_label nf_label by simp
  have lab_all: "label (topPrediction result) = ''Not Flower'' \<longleftrightarrow>
      probability top1 < 0.70 \<and> (\<forall>q \<in> set ranked. probability q < 1 - probability top1)"
    unfolding all_iff lab by auto
  have is_nf: "label (topPrediction result) = ''Not Flower'' \<longrightarrow>
      topPrediction result = notFlowerPrediction (1 - probability top1)"
    unfolding lab using tp2 by simp
  have is_top: "label (topPrediction result) \<noteq> ''Not Flower'' \<longrightarrow> topPrediction result = top1"
    unfolding lab using tp2 by simp
  show ?thesis
    using res unc tp srt ms same lab_all lab is_nf is_top by blast
qed

text \<open>
  The example of the claim: a distribution with top-1 probability 0.55 is uncertain and
  keeps its top-1 entry.
\<close>

theorem reject_synthesis_witness:
  "\<exists>result.
      fst (predictWithAllProbabilities \<lparr>isReady = True, predictionHistory = []\<rparr>
             (Some [0.55, 0.2, 0.1, 0.1, 0.05, 0])) = Inr result
    \<and> isUncertain result
    \<and> topPrediction result
        = hd (rankedPredictions (pushHistory [] [0.55, 0.2, 0.1, 0.1, 0.05, 0]))
    \<and> label (topPrediction result) = ''Ampalaya Bilog Male''"
proof -
  let ?raw = "[0.55, 0.2, 0.1, 0.1, 0.05, 0] :: real list"
  let ?svc = "\<lparr>isReady = True, predictionHistory = []\<rparr>"
  let ?top = "hd (rankedPredictions (pushHistory [] ?raw))"
  have p: "probability ?top = 0.55" by code_simp
  have l: "label ?top = ''Ampalaya Bilog Male''" by code_simp
  have "isReady ?svc" by simp
  from reject_synthesis [OF this refl refl, of ?raw]
  obtain result where r: "fst (predictWithAllProbabilities ?svc (Some ?raw)) = Inr result"
    and u: "isUncertain result = (probability ?top < 0.70)"
    and n: "label (topPrediction result) = ''Not Flower'' \<longleftrightarrow> probability ?top < 0.5"
    and t: "label (topPrediction result) \<noteq> ''Not Flower'' \<longrightarrow> topPrediction result = ?top"
    by auto
  have "isUncertain result" using u p by simp
  moreover have "topPrediction result = ?top" using n t p by simp
  ultimately show ?thesis using r l by auto
qed

text \<open>
  Claim C7 as stated fails on its example: with original probabilities 0.55, 0.2, 0.1,
  0.1, 0.05 and 0, the synthetic 0.45 exceeds every original probability other than the
  top-1 one, and the top prediction is still the original top-1 entry; the synthetic
  entry is second.
\<close>

theorem reject_synthesis_counterexample:
  "fst (predictWithAllProbabilities \<lparr>isReady = True, predictionHistory = []\<rparr>
          (Some [0.55, 0.2, 0.1, 0.1, 0.05, 0]))
     = Inr (smoothedResult [[0.55, 0.2, 0.1, 0.1, 0.05, 0]])
   \<and> map probability (rankedPredictions [[0.55, 0.2, 0.1, 0.1, 0.05, 0]])
       = [0.55, 0.2, 0.1, 0.1, 0.05, 0]
   \<and> map probability (predictions (smoothedResult [[0.55, 0.2, 0.1, 0.1, 0.05, 0]]))
       = [0.55, 0.45, 0.2, 0.1, 0.1, 0.05, 0]
   \<and> map label (predictions (smoothedResult [[0.55, 0.2, 0.1, 0.1, 0.05, 0]]))
       = [''Ampalaya Bilog Male'', ''Not Flower'', ''Ampalaya Bilog Female'', ''Patola Female'',
          ''Patola Male'', ''Upo Smooth Female'', ''Upo Smooth Male'']
   \<and> label (topPrediction (smoothedResult [[0.55, 0.2, 0.1, 0.1, 0.05, 0]]))
       = ''Ampalaya Bilog Male''"
  by code_simp

subsection \<open>The smoothing window\<close>










subsection \<open>Stability of the live prediction\<close>

lemma length_slice_last: "length (slice_last n xs) = min n (length xs)"
  by (simp add: slice_last_def)


lemma pushRecent_last: "pushRecent recent e \<noteq> [] \<and> last (pushRecent recent e) = e"
proof (cases "length (recent @ [e]) > 7")
  case True
  then obtain a rest where r: "recent = a # rest" by (cases recent) auto
  then have "rest \<noteq> []" using True by auto
  then show ?thesis using True r by (simp add: pushRecent_def Let_def)
next
  case False
  then show ?thesis by (simp add: pushRecent_def Let_def)
qed

lemma trackPrediction_recent:
  "recentPredictions (trackPrediction st ph result) =
     pushRecent (recentPredictions st)
       \<lparr> r_label = label (topPrediction result), r_confidence = percentage (topPrediction result),
         r_uri = uri ph, r_width = width ph, r_height = height ph \<rparr>"
  by (simp add: trackPrediction_def Let_def)

lemma trackPrediction_last:
  "last (recentPredictions (trackPrediction st ph result)) =
       \<lparr> r_label = label (topPrediction result), r_confidence = percentage (topPrediction result),
         r_uri = uri ph, r_width = width ph, r_height = height ph \<rparr>"
  by (simp add: trackPrediction_recent pushRecent_last)

lemma trackPrediction_stable:
  "isStable (trackPrediction st ph result) \<longleftrightarrow>
     length (slice_last 5 (recentPredictions (trackPrediction st ph result))) \<ge> 5
     \<and> list_all (\<lambda>p. r_label p = label (topPrediction result))
          (slice_last 5 (recentPredictions (trackPrediction st ph result)))
     \<and> label (topPrediction result) \<noteq> ''Not Flower''"
  by (simp add: trackPrediction_def Let_def)



subsection \<open>The best stable frame\<close>

text \<open>
  A top prediction other than the synthetic one has probability at least 0.5, so its
  percentage is at least 50.
\<close>

lemma topPrediction_smoothed:
  "topPrediction (smoothedResult h) =
     (if probability (hd (rankedPredictions h)) < 0.5
      then notFlowerPrediction (1 - probability (hd (rankedPredictions h)))
      else hd (rankedPredictions h))"
proof (cases "probability (hd (rankedPredictions h)) < 0.70")
  case True
  then have "topPrediction (smoothedResult h) =
      hd (sortDescending (rankedPredictions h
            @ [notFlowerPrediction (1 - probability (hd (rankedPredictions h)))]))"
    by (simp add: smoothedResult_def Let_def CONFIDENCE_THRESHOLD_def)
  then show ?thesis
    using top_after_synthesis
      [where h = h and c = "1 - probability (hd (rankedPredictions h))"]
    by auto
next
  case False
  then show ?thesis
    by (simp add: smoothedResult_def Let_def CONFIDENCE_THRESHOLD_def)
qed

lemma Math_round_mono_500: "500 \<le> x \<Longrightarrow> 500 \<le> Math_round x"
proof -
  assume "500 \<le> x"
  then have "of_int 500 \<le> x + 1 / 2" by simp
  then have "(500::int) \<le> \<lfloor>x + 1 / 2\<rfloor>" by (simp only: le_floor_iff)
  then show ?thesis unfolding Math_round_def by linarith
qed

lemma accepted_confidence:
  assumes "label (topPrediction (smoothedResult h)) \<noteq> ''Not Flower''"
  shows "50 \<le> percentage (topPrediction (smoothedResult h))"
proof -
  let ?t = "hd (rankedPredictions h)"
  have nf: "label (notFlowerPrediction c) = ''Not Flower''" for c
    by (simp add: notFlowerPrediction_def)
  have p: "\<not> probability ?t < 0.5"
    using assms nf by (auto simp: topPrediction_smoothed split: if_splits)
  then have t: "topPrediction (smoothedResult h) = ?t"
    by (simp add: topPrediction_smoothed)
  have "?t \<in> set (rankedPredictions h)"
    using ranked_cons [of h] by auto
  then have "percentage ?t = Math_round (probability ?t * 100 * 10) / 10"
    by (rule percentage_ranked)
  moreover have "500 \<le> Math_round (probability ?t * 100 * 10)"
    using p by (intro Math_round_mono_500) simp
  ultimately show ?thesis using t by simp
qed

lemma trackPrediction_best:
  "bestFrame (trackPrediction st ph result) =
     (if isStable (trackPrediction st ph result)
         \<and> percentage (topPrediction result) > b_confidence (bestFrame st)
      then \<lparr> b_uri = Some (uri ph), b_width = width ph, b_height = height ph,
             b_label = Some (label (topPrediction result)),
             b_confidence = percentage (topPrediction result), b_count = 5 \<rparr>
      else bestFrame st)"
proof -
  have "length (slice_last 5 xs) \<ge> 5 \<Longrightarrow> length (slice_last 5 xs) = 5" for xs :: "recent_prediction list"
    by (simp add: length_slice_last)
  then show ?thesis
    by (auto simp: trackPrediction_def Let_def)
qed

lemma scanTick_success:
  assumes "isReady (service st)"
  shows "scanTick st (Captured ph (Some raw)) =
     trackPrediction
       (st\<lparr> lastFrameUri := \<lparr> f_uri = Some (uri ph), f_width = width ph, f_height = height ph \<rparr>,
            service := (service st)\<lparr>predictionHistory :=
                          pushHistory (predictionHistory (service st)) raw\<rparr> \<rparr>)
       ph (smoothedResult (pushHistory (predictionHistory (service st)) raw))"
  using assms
  by (simp add: scanTick_def quickPredict_def predictWithAllProbabilities_def Let_def)

lemma scanTick_no_prediction:
  assumes "\<not> (isReady (service st) \<and> (\<exists>ph raw. t = Captured ph (Some raw)))"
  shows "bestFrame (scanTick st t) = bestFrame st \<and> isStable (scanTick st t) = isStable st
       \<and> recentPredictions (scanTick st t) = recentPredictions st"
proof (cases t)
  case Skipped
  then show ?thesis by (simp add: scanTick_def)
next
  case (Captured ph outputs)
  then show ?thesis
    using assms
    by (cases outputs)
       (auto simp: scanTick_def quickPredict_def predictWithAllProbabilities_def Let_def)
qed

lemma scanTick_confidence_mono: "b_confidence (bestFrame st) \<le> b_confidence (bestFrame (scanTick st t))"
proof (cases "isReady (service st) \<and> (\<exists>ph raw. t = Captured ph (Some raw))")
  case True
  then obtain ph raw where t: "t = Captured ph (Some raw)" and r: "isReady (service st)" by blast
  show ?thesis
    unfolding t scanTick_success [OF r] trackPrediction_best by simp
next
  case False
  then show ?thesis using scanTick_no_prediction [of st t] by simp
qed

lemma session_confidence_mono:
  "b_confidence (bestFrame st) \<le> b_confidence (bestFrame (foldl scanTick st ts))"
proof (induction ts arbitrary: st)
  case Nil
  then show ?case by simp
next
  case (Cons t ts)
  have "b_confidence (bestFrame st) \<le> b_confidence (bestFrame (scanTick st t))"
    by (rule scanTick_confidence_mono)
  also have "\<dots> \<le> b_confidence (bestFrame (foldl scanTick (scanTick st t) ts))"
    by (rule Cons.IH)
  finally show ?case by simp
qed

text \<open>
  Claim C6.  A tick changes \<open>bestFrame\<close> only when it ran a prediction and that prediction
  is stable.  On a stable tick, with \<open>current\<close> the entry just recorded: an empty
  \<open>bestFrame\<close> is replaced; a stored frame of the same label is replaced when the current
  confidence is strictly higher; a stored frame of another label is replaced when the
  current confidence is strictly higher; and with a current confidence not above the stored
  one \<open>bestFrame\<close> stays.  The stored confidence never decreases, over one tick and over
  any sequence of ticks.
\<close>

theorem bestFrame_invariant:
  "(bestFrame (scanTick st t) \<noteq> bestFrame st \<longrightarrow>
       isReady (service st) \<and> (\<exists>ph raw. t = Captured ph (Some raw)) \<and> isStable (scanTick st t))
   \<and> (isReady (service st) \<and> t = Captured ph (Some raw) \<and> isStable (scanTick st t) \<longrightarrow>
       (let current = last (recentPredictions (scanTick st t));
            candidate = \<lparr> b_uri = Some (uri ph), b_width = width ph, b_height = height ph,
                          b_label = Some (r_label current),
                          b_confidence = r_confidence current, b_count = 5 \<rparr>
        in (bestFrame st = emptyBestFrame \<longrightarrow> bestFrame (scanTick st t) = candidate)
         \<and> (b_label (bestFrame st) = Some (r_label current)
              \<and> r_confidence current > b_confidence (bestFrame st) \<longrightarrow>
             bestFrame (scanTick st t) = candidate)
         \<and> (b_label (bestFrame st) \<noteq> Some (r_label current)
              \<and> r_confidence current > b_confidence (bestFrame st) \<longrightarrow>
             bestFrame (scanTick st t) = candidate)
         \<and> (r_confidence current \<le> b_confidence (bestFrame st) \<longrightarrow>
             bestFrame (scanTick st t) = bestFrame st)))
   \<and> b_confidence (bestFrame st) \<le> b_confidence (bestFrame (scanTick st t))
   \<and> b_confidence (bestFrame st) \<le> b_confidence (bestFrame (foldl scanTick st ts))"
proof (intro conjI impI)
  assume ch: "bestFrame (scanTick st t) \<noteq> bestFrame st"
  then have c: "isReady (service st) \<and> (\<exists>ph raw. t = Captured ph (Some raw))"
    using scanTick_no_prediction [of st t] by blast
  then obtain ph' raw' where t: "t = Captured ph' (Some raw')" and r: "isReady (service st)"
    by blast
  have "isStable (scanTick st t)"
    using ch unfolding t scanTick_success [OF r] trackPrediction_best
    by (simp split: if_splits)
  then show "isReady (service st)" and "\<exists>ph raw. t = Captured ph (Some raw)"
    and "isStable (scanTick st t)" using c by blast+
next
  assume a: "isReady (service st) \<and> t = Captured ph (Some raw) \<and> isStable (scanTick st t)"
  then have r: "isReady (service st)" and t: "t = Captured ph (Some raw)"
    and s: "isStable (scanTick st t)" by blast+
  let ?h = "pushHistory (predictionHistory (service st)) raw"
  let ?res = "smoothedResult ?h"
  let ?st1 = "st\<lparr> lastFrameUri := \<lparr> f_uri = Some (uri ph), f_width = width ph, f_height = height ph \<rparr>,
            service := (service st)\<lparr>predictionHistory := ?h\<rparr> \<rparr>"
  have tick: "scanTick st t = trackPrediction ?st1 ph ?res"
    unfolding t by (rule scanTick_success [OF r])
  have cur: "last (recentPredictions (scanTick st t)) =
       \<lparr> r_label = label (topPrediction ?res), r_confidence = percentage (topPrediction ?res),
         r_uri = uri ph, r_width = width ph, r_height = height ph \<rparr>"
    unfolding tick by (rule trackPrediction_last)
  have st: "isStable (trackPrediction ?st1 ph ?res)" using s tick by simp
  then have "label (topPrediction ?res) \<noteq> ''Not Flower''"
    by (simp add: trackPrediction_stable)
  then have conf: "50 \<le> percentage (topPrediction ?res)" by (rule accepted_confidence)
  have best: "bestFrame (scanTick st t) =
     (if percentage (topPrediction ?res) > b_confidence (bestFrame st)
      then \<lparr> b_uri = Some (uri ph), b_width = width ph, b_height = height ph,
             b_label = Some (label (topPrediction ?res)),
             b_confidence = percentage (topPrediction ?res), b_count = 5 \<rparr>
      else bestFrame st)"
    unfolding tick trackPrediction_best using st by simp
  show "let current = last (recentPredictions (scanTick st t));
            candidate = \<lparr> b_uri = Some (uri ph), b_width = width ph, b_height = height ph,
                          b_label = Some (r_label current),
                          b_confidence = r_confidence current, b_count = 5 \<rparr>
        in (bestFrame st = emptyBestFrame \<longrightarrow> bestFrame (scanTick st t) = candidate)
         \<and> (b_label (bestFrame st) = Some (r_label current)
              \<and> r_confidence current > b_confidence (bestFrame st) \<longrightarrow>
             bestFrame (scanTick st t) = candidate)
         \<and> (b_label (bestFrame st) \<noteq> Some (r_label current)
              \<and> r_confidence current > b_confidence (bestFrame st) \<longrightarrow>
             bestFrame (scanTick st t) = candidate)
         \<and> (r_confidence current \<le> b_confidence (bestFrame st) \<longrightarrow>
             bestFrame (scanTick st t) = bestFrame st)"
    unfolding Let_def cur best using conf by (auto simp: emptyBestFrame_def)
next
  show "b_confidence (bestFrame st) \<le> b_confidence (bestFrame (scanTick st t))"
    by (rule scanTick_confidence_mono)
next
  show "b_confidence (bestFrame st) \<le> b_confidence (bestFrame (foldl scanTick st ts))"
    by (rule session_confidence_mono)
qed

text \<open>
  A fifth \<open>Patola Male\<close> prediction in a row, at 100 percent, fills the empty
  \<open>bestFrame\<close>.
\<close>

theorem bestFrame_invariant_witness:
  "bestFrame (scanTick
      \<lparr> service = \<lparr>isReady = True, predictionHistory = []\<rparr>,
        recentPredictions =
          replicate 4 \<lparr> r_label = ''Patola Male'', r_confidence = 90, r_uri = ''f'',
                        r_width = 4, r_height = 3 \<rparr>,
        bestFrame = emptyBestFrame, lastFrameUri = emptyLastFrame,
        isStable = False, isCapturing = False \<rparr>
      (Captured \<lparr> uri = ''g'', width = 4, height = 3 \<rparr> (Some [0, 0, 0, 1, 0, 0])))
   = \<lparr> b_uri = Some ''g'', b_width = 4, b_height = 3, b_label = Some ''Patola Male'',
       b_confidence = 100, b_count = 5 \<rparr>"
proof -
  let ?ph = "\<lparr> uri = ''g'', width = 4, height = 3 \<rparr>"
  let ?raw = "[0, 0, 0, 1, 0, 0] :: real list"
  let ?st = "\<lparr> service = \<lparr>isReady = True, predictionHistory = []\<rparr>,
        recentPredictions =
          replicate 4 \<lparr> r_label = ''Patola Male'', r_confidence = 90, r_uri = ''f'',
                        r_width = 4, r_height = 3 \<rparr>,
        bestFrame = emptyBestFrame, lastFrameUri = emptyLastFrame,
        isStable = False, isCapturing = False \<rparr>"
  have stable: "isStable (scanTick ?st (Captured ?ph (Some ?raw)))" by code_simp
  have cur: "last (recentPredictions (scanTick ?st (Captured ?ph (Some ?raw))))
      = \<lparr> r_label = ''Patola Male'', r_confidence = 100, r_uri = ''g'',
          r_width = 4, r_height = 3 \<rparr>"
    by code_simp
  have pre: "isReady (service ?st) \<and> Captured ?ph (Some ?raw) = Captured ?ph (Some ?raw)
      \<and> isStable (scanTick ?st (Captured ?ph (Some ?raw)))"
    using stable by simp
  show ?thesis
    using mp [OF conjunct1 [OF conjunct2
                [OF bestFrame_invariant [of ?st "Captured ?ph (Some ?raw)" ?ph ?raw "[]"]]] pre]
    unfolding Let_def cur by simp
qed

subsection \<open>Frame selection at capture\<close>

lemma bestRecentOf_Some:
  assumes "bestRecentOf recent = Some p"
  shows "p \<in> set recent \<and> r_label p \<noteq> ''Not Flower''
       \<and> (\<forall>q \<in> set recent. r_label q \<noteq> ''Not Flower'' \<longrightarrow> r_confidence q \<le> r_confidence p)"
proof -
  let ?xs = "filter (\<lambda>p. r_label p \<noteq> ''Not Flower'') recent"
  let ?f = "\<lambda>p. - r_confidence p"
  obtain rest where s: "sort_key ?f ?xs = p # rest"
    using assms by (auto simp: bestRecentOf_def split: list.splits)
  have "set (p # rest) = set ?xs" using s set_sort [of ?f ?xs] by simp
  then have mem: "p \<in> set ?xs" and all: "\<forall>q \<in> set ?xs. q = p \<or> q \<in> set rest" by auto
  have "sorted (map ?f (p # rest))" using s sorted_sort_key [of ?f ?xs] by simp
  then have "\<forall>q \<in> set rest. r_confidence q \<le> r_confidence p" by simp
  then have "\<forall>q \<in> set ?xs. r_confidence q \<le> r_confidence p" using all by auto
  then show ?thesis using mem by auto
qed

lemma bestRecentOf_None:
  "bestRecentOf recent = None \<longleftrightarrow> (\<forall>q \<in> set recent. r_label q = ''Not Flower'')"
proof -
  let ?xs = "filter (\<lambda>p. r_label p \<noteq> ''Not Flower'') recent"
  let ?f = "\<lambda>p. - r_confidence p"
  have "bestRecentOf recent = None \<longleftrightarrow> sort_key ?f ?xs = []"
    by (simp add: bestRecentOf_def split: list.splits)
  also have "\<dots> \<longleftrightarrow> ?xs = []"
    using length_sort [of ?f ?xs] by (metis length_0_conv)
  also have "\<dots> \<longleftrightarrow> (\<forall>q \<in> set recent. r_label q = ''Not Flower'')"
    by (simp add: filter_empty_conv)
  finally show ?thesis .
qed

text \<open>
  Claim C4.  When no capture is running and every recent entry carries a non-empty frame
  URI (as every URI the camera returns is), the handler chooses in this order: the best
  stable frame, when present with a confidence above 50; else the recent entry of highest
  confidence among those not labelled \<open>Not Flower\<close>, when that confidence is above 60;
  else the last frame, when present; else no cached frame is used and a fresh photo is
  taken at once (the capture-failed alert when the camera throws).
\<close>

theorem capture_priority:
  assumes "\<not> isCapturing st" and "\<forall>p \<in> set (recentPredictions st). r_uri p \<noteq> []"
  shows "(b_uri (bestFrame st) = Some u \<and> u \<noteq> [] \<and> b_confidence (bestFrame st) > 50 \<longrightarrow>
            fst (handleCapture st fresh) =
              NavigateCached u (b_width (bestFrame st)) (b_height (bestFrame st))
                (BestStable (b_label (bestFrame st)) (b_confidence (bestFrame st))))
       \<and> (\<not> (truthy (b_uri (bestFrame st)) \<and> b_confidence (bestFrame st) > 50)
            \<and> bestRecentOf (recentPredictions st) = Some p \<and> r_confidence p > 60 \<longrightarrow>
            fst (handleCapture st fresh) =
              NavigateCached (r_uri p) (r_width p) (r_height p)
                (BestRecent (r_label p) (r_confidence p))
            \<and> p \<in> set (recentPredictions st) \<and> r_label p \<noteq> ''Not Flower''
            \<and> (\<forall>q \<in> set (recentPredictions st).
                  r_label q \<noteq> ''Not Flower'' \<longrightarrow> r_confidence q \<le> r_confidence p))
       \<and> (\<not> (truthy (b_uri (bestFrame st)) \<and> b_confidence (bestFrame st) > 50)
            \<and> \<not> (\<exists>q. bestRecentOf (recentPredictions st) = Some q \<and> r_confidence q > 60)
            \<and> f_uri (lastFrameUri st) = Some v \<and> v \<noteq> [] \<longrightarrow>
            fst (handleCapture st fresh) =
              NavigateCached v (f_width (lastFrameUri st)) (f_height (lastFrameUri st)) LastFrame)
       \<and> (\<not> (truthy (b_uri (bestFrame st)) \<and> b_confidence (bestFrame st) > 50)
            \<and> \<not> (\<exists>q. bestRecentOf (recentPredictions st) = Some q \<and> r_confidence q > 60)
            \<and> \<not> truthy (f_uri (lastFrameUri st)) \<longrightarrow>
            fst (handleCapture st fresh) =
              (case fresh of
                 Some ph \<Rightarrow> NavigateFresh (uri ph) (width ph) (height ph)
               | None \<Rightarrow> CaptureFailed))"
proof (intro conjI impI)
  assume "b_uri (bestFrame st) = Some u \<and> u \<noteq> [] \<and> b_confidence (bestFrame st) > 50"
  then show "fst (handleCapture st fresh) =
              NavigateCached u (b_width (bestFrame st)) (b_height (bestFrame st))
                (BestStable (b_label (bestFrame st)) (b_confidence (bestFrame st)))"
    using assms(1) by (simp add: handleCapture_def selectFrame_def truthy_def Let_def)
next
  assume a: "\<not> (truthy (b_uri (bestFrame st)) \<and> b_confidence (bestFrame st) > 50)
            \<and> bestRecentOf (recentPredictions st) = Some p \<and> r_confidence p > 60"
  then have b: "bestRecentOf (recentPredictions st) = Some p" by blast
  have props: "p \<in> set (recentPredictions st) \<and> r_label p \<noteq> ''Not Flower''
       \<and> (\<forall>q \<in> set (recentPredictions st).
             r_label q \<noteq> ''Not Flower'' \<longrightarrow> r_confidence q \<le> r_confidence p)"
    using b by (rule bestRecentOf_Some)
  then have "r_uri p \<noteq> []" using assms(2) by blast
  then have "fst (handleCapture st fresh) =
              NavigateCached (r_uri p) (r_width p) (r_height p)
                (BestRecent (r_label p) (r_confidence p))"
    using a assms(1) by (auto simp: handleCapture_def selectFrame_def Let_def)
  then show "fst (handleCapture st fresh) =
              NavigateCached (r_uri p) (r_width p) (r_height p)
                (BestRecent (r_label p) (r_confidence p))"
    and "p \<in> set (recentPredictions st)" and "r_label p \<noteq> ''Not Flower''"
    and "\<forall>q \<in> set (recentPredictions st).
             r_label q \<noteq> ''Not Flower'' \<longrightarrow> r_confidence q \<le> r_confidence p"
    using props by blast+
next
  assume "\<not> (truthy (b_uri (bestFrame st)) \<and> b_confidence (bestFrame st) > 50)
            \<and> \<not> (\<exists>q. bestRecentOf (recentPredictions st) = Some q \<and> r_confidence q > 60)
            \<and> f_uri (lastFrameUri st) = Some v \<and> v \<noteq> []"
  then show "fst (handleCapture st fresh) =
              NavigateCached v (f_width (lastFrameUri st)) (f_height (lastFrameUri st)) LastFrame"
    using assms(1)
    by (auto simp: handleCapture_def selectFrame_def Let_def truthy_def split: option.splits)
next
  assume "\<not> (truthy (b_uri (bestFrame st)) \<and> b_confidence (bestFrame st) > 50)
            \<and> \<not> (\<exists>q. bestRecentOf (recentPredictions st) = Some q \<and> r_confidence q > 60)
            \<and> \<not> truthy (f_uri (lastFrameUri st))"
  then show "fst (handleCapture st fresh) =
              (case fresh of
                 Some ph \<Rightarrow> NavigateFresh (uri ph) (width ph) (height ph)
               | None \<Rightarrow> CaptureFailed)"
    using assms(1)
    by (auto simp: handleCapture_def selectFrame_def Let_def split: option.splits)
qed

text \<open>
  With nothing but a last frame the last frame is used; with nothing at all a fresh photo
  is taken; a recent \<open>Patola Male\<close> at 80 beats one at 55 and a \<open>Not Flower\<close> at 99; a
  best stable frame at 91 is used first.
\<close>

theorem capture_priority_witness:
  "fst (handleCapture
      \<lparr> service = \<lparr>isReady = True, predictionHistory = []\<rparr>, recentPredictions = [],
        bestFrame = emptyBestFrame,
        lastFrameUri = \<lparr> f_uri = Some ''last.jpg'', f_width = 4, f_height = 3 \<rparr>,
        isStable = False, isCapturing = False \<rparr> None)
     = NavigateCached ''last.jpg'' 4 3 LastFrame
   \<and> fst (handleCapture
      \<lparr> service = \<lparr>isReady = True, predictionHistory = []\<rparr>, recentPredictions = [],
        bestFrame = emptyBestFrame, lastFrameUri = emptyLastFrame,
        isStable = False, isCapturing = False \<rparr>
      (Some \<lparr> uri = ''fresh.jpg'', width = 4, height = 3 \<rparr>))
     = NavigateFresh ''fresh.jpg'' 4 3
   \<and> fst (handleCapture
      \<lparr> service = \<lparr>isReady = True, predictionHistory = []\<rparr>,
        recentPredictions =
          [\<lparr> r_label = ''Patola Male'', r_confidence = 55, r_uri = ''a.jpg'',
              r_width = 4, r_height = 3 \<rparr>,
           \<lparr> r_label = ''Not Flower'', r_confidence = 99, r_uri = ''b.jpg'',
              r_width = 4, r_height = 3 \<rparr>,
           \<lparr> r_label = ''Patola Male'', r_confidence = 80, r_uri = ''c.jpg'',
              r_width = 4, r_height = 3 \<rparr>],
        bestFrame = emptyBestFrame,
        lastFrameUri = \<lparr> f_uri = Some ''c.jpg'', f_width = 4, f_height = 3 \<rparr>,
        isStable = False, isCapturing = False \<rparr> None)
     = NavigateCached ''c.jpg'' 4 3 (BestRecent ''Patola Male'' 80)
   \<and> fst (handleCapture
      \<lparr> service = \<lparr>isReady = True, predictionHistory = []\<rparr>, recentPredictions = [],
        bestFrame = \<lparr> b_uri = Some ''best.jpg'', b_width = 4, b_height = 3,
                      b_label = Some ''Patola Male'', b_confidence = 91, b_count = 5 \<rparr>,
        lastFrameUri = \<lparr> f_uri = Some ''last.jpg'', f_width = 4, f_height = 3 \<rparr>,
        isStable = True, isCapturing = False \<rparr> None)
     = NavigateCached ''best.jpg'' 4 3 (BestStable (Some ''Patola Male'') 91)"
proof -
  let ?svc = "\<lparr>isReady = True, predictionHistory = []\<rparr>"
  let ?last = "\<lparr> f_uri = Some ''last.jpg'', f_width = 4, f_height = 3 \<rparr>"
  let ?a = "\<lparr> r_label = ''Patola Male'', r_confidence = 55, r_uri = ''a.jpg'',
              r_width = 4, r_height = 3 \<rparr>"
  let ?b = "\<lparr> r_label = ''Not Flower'', r_confidence = 99, r_uri = ''b.jpg'',
              r_width = 4, r_height = 3 \<rparr>"
  let ?c = "\<lparr> r_label = ''Patola Male'', r_confidence = 80, r_uri = ''c.jpg'',
              r_width = 4, r_height = 3 \<rparr>"
  let ?s1 = "\<lparr> service = ?svc, recentPredictions = [],
        bestFrame = emptyBestFrame, lastFrameUri = ?last,
        isStable = False, isCapturing = False \<rparr>"
  let ?s2 = "\<lparr> service = ?svc, recentPredictions = [],
        bestFrame = emptyBestFrame, lastFrameUri = emptyLastFrame,
        isStable = False, isCapturing = False \<rparr>"
  let ?s3 = "\<lparr> service = ?svc, recentPredictions = [?a, ?b, ?c],
        bestFrame = emptyBestFrame,
        lastFrameUri = \<lparr> f_uri = Some ''c.jpg'', f_width = 4, f_height = 3 \<rparr>,
        isStable = False, isCapturing = False \<rparr>"
  let ?s4 = "\<lparr> service = ?svc, recentPredictions = [],
        bestFrame = \<lparr> b_uri = Some ''best.jpg'', b_width = 4, b_height = 3,
                      b_label = Some ''Patola Male'', b_confidence = 91, b_count = 5 \<rparr>,
        lastFrameUri = ?last, isStable = True, isCapturing = False \<rparr>"
  have none: "bestRecentOf [] = None" by (simp add: bestRecentOf_def)
  have best: "bestRecentOf [?a, ?b, ?c] = Some ?c" by (simp add: bestRecentOf_def)
  have c1: "fst (handleCapture ?s1 None) = NavigateCached ''last.jpg'' 4 3 LastFrame"
    using capture_priority [of ?s1 _ None _ "''last.jpg''"] none
    by (simp add: emptyBestFrame_def truthy_def)
  have c2: "fst (handleCapture ?s2 (Some \<lparr> uri = ''fresh.jpg'', width = 4, height = 3 \<rparr>))
      = NavigateFresh ''fresh.jpg'' 4 3"
    using capture_priority [of ?s2 _ "Some \<lparr> uri = ''fresh.jpg'', width = 4, height = 3 \<rparr>"] none
    by (simp add: emptyBestFrame_def emptyLastFrame_def truthy_def)
  have c3: "fst (handleCapture ?s3 None)
      = NavigateCached ''c.jpg'' 4 3 (BestRecent ''Patola Male'' 80)"
    using capture_priority [of ?s3 _ None ?c] best
    by (simp add: emptyBestFrame_def truthy_def)
  have c4: "fst (handleCapture ?s4 None)
      = NavigateCached ''best.jpg'' 4 3 (BestStable (Some ''Patola Male'') 91)"
    using capture_priority [of ?s4 "''best.jpg''" None]
    by simp
  show ?thesis using c1 c2 c3 c4 by simp
qed

subsection \<open>Parsing the remote response\<close>

lemma firstMatch_Some: "firstMatch m s = Some v \<Longrightarrow> \<exists>s'. m s' = Some v"
  by (induction s) (auto split: option.splits)

lemma quotedFieldAt_nonempty: "quotedFieldAt closing key s = Some v \<Longrightarrow> v \<noteq> []"
  by (auto simp: quotedFieldAt_def Let_def split: option.splits list.splits if_splits)

lemma varietyMatch1_truthy: "varietyMatch1 text = Some v \<Longrightarrow> truthy (Some v)"
  using firstMatch_Some quotedFieldAt_nonempty
  by (fastforce simp: varietyMatch1_def truthy_def)

lemma genderMatch1_truthy: "genderMatch1 text = Some g \<Longrightarrow> truthy (Some g)"
  using firstMatch_Some quotedFieldAt_nonempty
  by (fastforce simp: genderMatch1_def truthy_def)

lemma parseResponse_fallback:
  assumes "strictParseFails JSON_parse text"
    and "varietyMatch1 text = Some v" and "genderMatch1 text = Some g"
    and "confidenceMatch1 text = Some c"
  shows "parseResponse JSON_parse text =
     Inr (extracted v g c
            (if jsonMatch text = None
             then (case reasoningMatch1 text of Some r \<Rightarrow> r | None \<Rightarrow> ''Analysis completed'')
             else ''Analysis completed (partial response)''))"
  using assms
  by (auto simp: parseResponse_def strictParseFails_def Let_def split: option.splits)

lemma parseResponse_invalid:
  "parseResponse JSON_parse text = Inl message \<longleftrightarrow>
     message = ''Invalid response format from Gemini''
     \<and> strictParseFails JSON_parse text
     \<and> (varietyMatch1 text = None \<or> genderMatch1 text = None \<or> confidenceMatch1 text = None)"
  by (auto simp: parseResponse_def strictParseFails_def Let_def split: option.splits)

lemma returned_prediction:
  assumes "strictParseFails JSON_parse text"
    and "varietyMatch1 text = Some v" and "genderMatch1 text = Some g"
    and "confidenceMatch1 text = Some c"
  shows "analyzeFlower JSON_parse True (Inr text) =
     Inr (formatPrediction
            (extracted v g c
               (if jsonMatch text = None
                then (case reasoningMatch1 text of Some r \<Rightarrow> r | None \<Rightarrow> ''Analysis completed'')
                else ''Analysis completed (partial response)'')))"
proof -
  have "truthy (Some v)" and "truthy (Some g)"
    using assms varietyMatch1_truthy genderMatch1_truthy by blast+
  then show ?thesis
    by (simp add: analyzeFlower_def parseResponse_fallback [OF assms] extracted_def)
qed

text \<open>
  Claim C9.  When strict parsing of the response text fails (no object text is found, or
  \<open>JSON.parse\<close> throws) and the three patterns find variety, gender and confidence, the
  call returns the formatted prediction built from the captured fields: its variety is
  the display name of the captured variety, its gender the captured gender (none for
  \<open>not_flower\<close>), its raw score the number read from the captured confidence, its
  percentage that number times 100 rounded to one decimal, its class the captured variety
  and gender joined by an underscore, and its flags follow from these.  When strict
  parsing fails and the call raises an error, that error is the analysis-failed error
  for an invalid response format and one of the three patterns found nothing; and that
  error is raised only then.
\<close>

theorem parse_fallback:
  "(strictParseFails JSON_parse text
      \<and> varietyMatch1 text = Some v \<and> genderMatch1 text = Some g
      \<and> confidenceMatch1 text = Some c \<longrightarrow>
      analyzeFlower JSON_parse True (Inr text) =
        Inr (formatPrediction
               (extracted v g c
                  (if jsonMatch text = None
                   then (case reasoningMatch1 text of
                           Some r \<Rightarrow> r
                         | None \<Rightarrow> ''Analysis completed'')
                   else ''Analysis completed (partial response)''))))
   \<and> (strictParseFails JSON_parse text
        \<and> analyzeFlower JSON_parse True (Inr text) = Inl err \<longrightarrow>
        err = AnalysisFailed ''Invalid response format from Gemini''
        \<and> (varietyMatch1 text = None \<or> genderMatch1 text = None \<or> confidenceMatch1 text = None))
   \<and> (analyzeFlower JSON_parse True (Inr text)
          = Inl (AnalysisFailed ''Invalid response format from Gemini'') \<longleftrightarrow>
        strictParseFails JSON_parse text
        \<and> (varietyMatch1 text = None \<or> genderMatch1 text = None \<or> confidenceMatch1 text = None))
   \<and> (strictParseFails JSON_parse text
        \<and> varietyMatch1 text = Some v \<and> genderMatch1 text = Some g
        \<and> confidenceMatch1 text = Some c \<longrightarrow>
        (\<exists>pred. analyzeFlower JSON_parse True (Inr text) = Inr pred
          \<and> p_variety pred =
              (if v = ''ampalaya_bilog'' then Some ''Ampalaya Bilog''
               else if v = ''patola'' then Some ''Patola''
               else if v = ''upo_smooth'' then Some ''Upo (Smooth)''
               else None)
          \<and> p_gender pred = (if v = ''not_flower'' then None else Some g)
          \<and> p_rawScore pred = Some (parseFloat c)
          \<and> p_confidence pred =
              Some (num_map (\<lambda>x. Math_round (x * 100 * 10) / 10) (parseFloat c))
          \<and> predictedClass pred =
              (if v = ''not_flower'' then ''not_flower''
               else if v = ''ampalaya_bilog'' \<or> v = ''patola'' \<or> v = ''upo_smooth''
               then v @ ''_'' @ g
               else ''unknown'')
          \<and> isNotFlower pred = (v = ''not_flower'')
          \<and> isFlower pred = (v \<noteq> ''not_flower'')
          \<and> isLowConfidence pred = num_less (parseFloat c) 0.65
          \<and> p_isUncertain pred = num_less (parseFloat c) 0.5
          \<and> shouldReject pred = (v = ''not_flower'' \<or> num_less (parseFloat c) 0.5)
          \<and> p_reasoning pred =
              Some (if jsonMatch text = None
                    then (case reasoningMatch1 text of
                            Some r \<Rightarrow> r
                          | None \<Rightarrow> ''Analysis completed'')
                    else ''Analysis completed (partial response)'')
          \<and> p_keyFeatures pred = []))"
proof (intro conjI impI)
  assume a: "strictParseFails JSON_parse text
        \<and> varietyMatch1 text = Some v \<and> genderMatch1 text = Some g
        \<and> confidenceMatch1 text = Some c"
  let ?reasoning = "if jsonMatch text = None
                    then (case reasoningMatch1 text of
                            Some r \<Rightarrow> r
                          | None \<Rightarrow> ''Analysis completed'')
                    else ''Analysis completed (partial response)''"
  have an: "analyzeFlower JSON_parse True (Inr text) =
      Inr (formatPrediction (extracted v g c ?reasoning))"
    by (rule returned_prediction [OF conjunct1 [OF a] conjunct1 [OF conjunct2 [OF a]]
          conjunct1 [OF conjunct2 [OF conjunct2 [OF a]]]
          conjunct2 [OF conjunct2 [OF conjunct2 [OF a]]]])
  have g: "g \<noteq> []"
    using a genderMatch1_truthy [of "text" g] by (simp add: truthy_def)
  show "(\<exists>pred. analyzeFlower JSON_parse True (Inr text) = Inr pred
            \<and> p_variety pred =
                (if v = ''ampalaya_bilog'' then Some ''Ampalaya Bilog''
                 else if v = ''patola'' then Some ''Patola''
                 else if v = ''upo_smooth'' then Some ''Upo (Smooth)''
                 else None)
            \<and> p_gender pred = (if v = ''not_flower'' then None else Some g)
            \<and> p_rawScore pred = Some (parseFloat c)
            \<and> p_confidence pred =
                Some (num_map (\<lambda>x. Math_round (x * 100 * 10) / 10) (parseFloat c))
            \<and> predictedClass pred =
                (if v = ''not_flower'' then ''not_flower''
                 else if v = ''ampalaya_bilog'' \<or> v = ''patola'' \<or> v = ''upo_smooth''
                 then v @ ''_'' @ g
                 else ''unknown'')
            \<and> isNotFlower pred = (v = ''not_flower'')
            \<and> isFlower pred = (v \<noteq> ''not_flower'')
            \<and> isLowConfidence pred = num_less (parseFloat c) 0.65
            \<and> p_isUncertain pred = num_less (parseFloat c) 0.5
            \<and> shouldReject pred = (v = ''not_flower'' \<or> num_less (parseFloat c) 0.5)
            \<and> p_reasoning pred =
                Some (if jsonMatch text = None
                      then (case reasoningMatch1 text of
                              Some r \<Rightarrow> r
                            | None \<Rightarrow> ''Analysis completed'')
                      else ''Analysis completed (partial response)'')
            \<and> p_keyFeatures pred = [])"
    unfolding an
    by (rule exI [of _ "formatPrediction (extracted v g c ?reasoning)"])
       (simp add: formatPrediction_def extracted_def Let_def truthy_def g)
next
  assume a: "strictParseFails JSON_parse text
      \<and> varietyMatch1 text = Some v \<and> genderMatch1 text = Some g
      \<and> confidenceMatch1 text = Some c"
  show "analyzeFlower JSON_parse True (Inr text) =
      Inr (formatPrediction
             (extracted v g c
                (if jsonMatch text = None
                 then (case reasoningMatch1 text of
                         Some r \<Rightarrow> r
                       | None \<Rightarrow> ''Analysis completed'')
                 else ''Analysis completed (partial response)'')))"
    by (rule returned_prediction [OF conjunct1 [OF a] conjunct1 [OF conjunct2 [OF a]]
          conjunct1 [OF conjunct2 [OF conjunct2 [OF a]]]
          conjunct2 [OF conjunct2 [OF conjunct2 [OF a]]]])
next
  assume a: "strictParseFails JSON_parse text
        \<and> analyzeFlower JSON_parse True (Inr text) = Inl err"
  show "err = AnalysisFailed ''Invalid response format from Gemini''"
   and "varietyMatch1 text = None \<or> genderMatch1 text = None \<or> confidenceMatch1 text = None"
  proof -
    have both: "err = AnalysisFailed ''Invalid response format from Gemini''
      \<and> (varietyMatch1 text = None \<or> genderMatch1 text = None \<or> confidenceMatch1 text = None)"
    proof (cases "parseResponse JSON_parse text")
      case (Inl message)
      then show ?thesis
        using a parseResponse_invalid [of JSON_parse "text" message]
        by (simp add: analyzeFlower_def)
    next
      case (Inr res)
      obtain v' g' c' where f: "varietyMatch1 text = Some v'" "genderMatch1 text = Some g'"
          "confidenceMatch1 text = Some c'"
        using Inr a parseResponse_invalid [of JSON_parse "text" "''Invalid response format from Gemini''"]
        by (cases "varietyMatch1 text"; cases "genderMatch1 text"; cases "confidenceMatch1 text")
           auto
      have "\<exists>reasoning. res = extracted v' g' c' reasoning"
        using parseResponse_fallback [OF conjunct1 [OF a] f] Inr by auto
      then have False
        using a Inr varietyMatch1_truthy [OF f(1)] genderMatch1_truthy [OF f(2)]
        by (auto simp: analyzeFlower_def extracted_def)
      then show ?thesis ..
    qed
    show "err = AnalysisFailed ''Invalid response format from Gemini''"
      by (rule conjunct1 [OF both])
    show "varietyMatch1 text = None \<or> genderMatch1 text = None \<or> confidenceMatch1 text = None"
      by (rule conjunct2 [OF both])
  qed
next
  show "analyzeFlower JSON_parse True (Inr text)
          = Inl (AnalysisFailed ''Invalid response format from Gemini'') \<longleftrightarrow>
        strictParseFails JSON_parse text
        \<and> (varietyMatch1 text = None \<or> genderMatch1 text = None \<or> confidenceMatch1 text = None)"
  proof (cases "parseResponse JSON_parse text")
    case (Inl message)
    then show ?thesis
      using parseResponse_invalid [of JSON_parse "text" message]
      by (auto simp: analyzeFlower_def)
  next
    case (Inr res)
    then have "\<not> (strictParseFails JSON_parse text
        \<and> (varietyMatch1 text = None \<or> genderMatch1 text = None \<or> confidenceMatch1 text = None))"
      using parseResponse_invalid [of JSON_parse "text" "''Invalid response format from Gemini''"]
      by auto
    then show ?thesis
      using Inr by (auto simp: analyzeFlower_def)
  qed
qed

text \<open>
  A truncated response without a closing brace, and a response whose object text
  \<open>JSON.parse\<close> rejects: both yield the prediction of the captured fields, shown
  field by field.
\<close>

theorem parse_fallback_witness:
  "analyzeFlower Map.empty True
      (Inr ''{ \"variety\": \"patola\", \"gender\" : \"male\", \"confidence\": 0.9, \"reaso'')
     = Inr (formatPrediction (extracted ''patola'' ''male'' ''0.9'' ''Analysis completed''))
   \<and> analyzeFlower Map.empty True
      (Inr ''{\"variety\":\"upo_smooth\",\"gender\":\"female\",\"confidence\":0.85,}'')
     = Inr (formatPrediction
              (extracted ''upo_smooth'' ''female'' ''0.85''
                 ''Analysis completed (partial response)''))
   \<and> analyzeFlower Map.empty True
      (Inr ''{ \"variety\": \"patola\", \"gender\" : \"male\", \"confidence\": 0.9, \"reaso'')
     = Inr \<lparr> predictedClass = ''patola_male'', p_variety = Some ''Patola'',
             p_gender = Some ''male'', isFlower = True, p_confidence = Some (Num 90),
             p_rawScore = Some (Num 0.9), isLowConfidence = False, p_isUncertain = False,
             shouldReject = False, isNotFlower = False,
             p_reasoning = Some ''Analysis completed'', p_keyFeatures = [] \<rparr>
   \<and> analyzeFlower Map.empty True
      (Inr ''{\"variety\":\"upo_smooth\",\"gender\":\"female\",\"confidence\":0.85,}'')
     = Inr \<lparr> predictedClass = ''upo_smooth_female'', p_variety = Some ''Upo (Smooth)'',
             p_gender = Some ''female'', isFlower = True, p_confidence = Some (Num 85),
             p_rawScore = Some (Num 0.85), isLowConfidence = False, p_isUncertain = False,
             shouldReject = False, isNotFlower = False,
             p_reasoning = Some ''Analysis completed (partial response)'',
             p_keyFeatures = [] \<rparr>"
proof -
  let ?t1 = "''{ \"variety\": \"patola\", \"gender\" : \"male\", \"confidence\": 0.9, \"reaso''"
  let ?t2 = "''{\"variety\":\"upo_smooth\",\"gender\":\"female\",\"confidence\":0.85,}''"
  let ?parse = "Map.empty :: string \<Rightarrow> gemini_result option"
  have j1: "jsonMatch ?t1 = None" by code_simp
  have j2: "jsonMatch ?t2 \<noteq> None" by code_simp
  have r1: "reasoningMatch1 ?t1 = None" by code_simp
  have f1: "strictParseFails ?parse ?t1 \<and> varietyMatch1 ?t1 = Some ''patola''
      \<and> genderMatch1 ?t1 = Some ''male'' \<and> confidenceMatch1 ?t1 = Some ''0.9''"
    by code_simp
  have f2: "strictParseFails ?parse ?t2 \<and> varietyMatch1 ?t2 = Some ''upo_smooth''
      \<and> genderMatch1 ?t2 = Some ''female'' \<and> confidenceMatch1 ?t2 = Some ''0.85''"
    by code_simp
  have a1: "analyzeFlower ?parse True (Inr ?t1)
      = Inr (formatPrediction (extracted ''patola'' ''male'' ''0.9'' ''Analysis completed''))"
    using mp [OF conjunct1 [OF parse_fallback] f1] unfolding j1 r1 by simp
  have a2: "analyzeFlower ?parse True (Inr ?t2)
      = Inr (formatPrediction
              (extracted ''upo_smooth'' ''female'' ''0.85''
                 ''Analysis completed (partial response)''))"
    using mp [OF conjunct1 [OF parse_fallback] f2] j2 by simp
  have v1: "formatPrediction (extracted ''patola'' ''male'' ''0.9'' ''Analysis completed'')
      = \<lparr> predictedClass = ''patola_male'', p_variety = Some ''Patola'',
          p_gender = Some ''male'', isFlower = True, p_confidence = Some (Num 90),
          p_rawScore = Some (Num 0.9), isLowConfidence = False, p_isUncertain = False,
          shouldReject = False, isNotFlower = False,
          p_reasoning = Some ''Analysis completed'', p_keyFeatures = [] \<rparr>"
    by code_simp
  have v2: "formatPrediction
              (extracted ''upo_smooth'' ''female'' ''0.85''
                 ''Analysis completed (partial response)'')
      = \<lparr> predictedClass = ''upo_smooth_female'', p_variety = Some ''Upo (Smooth)'',
          p_gender = Some ''female'', isFlower = True, p_confidence = Some (Num 85),
          p_rawScore = Some (Num 0.85), isLowConfidence = False, p_isUncertain = False,
          shouldReject = False, isNotFlower = False,
          p_reasoning = Some ''Analysis completed (partial response)'',
          p_keyFeatures = [] \<rparr>"
    by code_simp
  show ?thesis
    using a1 a2 a1 [unfolded v1] a2 [unfolded v2] by (intro conjI)
qed

end
